theory Spec2Isabelle
  imports
    Main
    "HOL-Library.List_Lexorder"
    "HOL-Library.Char_ord"
    "HOL-Library.Option_ord"
    "HOL-Library.Product_Lexorder"
    "HOL-Library.Multiset"
    "HOL-Library.AList"
begin

section \<open>Data model\<close>

text \<open>
  The host endpoints controller of the etcd operator
  (\<^verbatim>\<open>pkg/operator/hostendpointscontroller/host_endpoints_controller.go\<close>).

  A Go \<^verbatim>\<open>error\<close> value is modelled by what the controller observes of it: whether
  \<^verbatim>\<open>errors.IsNotFound\<close> holds of it and the text \<^verbatim>\<open>err.Error()\<close>. The nil error is
  the right injection of a sum, or \<open>None\<close>.
\<close>

datatype go_error = GoError (IsNotFound: bool) (ErrorText: string)

text \<open>\<^verbatim>\<open>fmt.Errorf\<close> with \<^verbatim>\<open>%v\<close> verbs builds a fresh error that is not a not-found status.\<close>

definition fmt_Errorf :: "string \<Rightarrow> go_error" where
  "fmt_Errorf msg = GoError False msg"

text \<open>A run-time panic is not a returned error; both end the function early.\<close>

datatype panic = IndexOutOfRange | NilPointerDereference

datatype failure = Returned go_error | Panicked panic

text \<open>
  Modelled from the spec: the declarations of the Kubernetes API types are not part of this
  source file. An endpoint record is an IP, a hostname and a node reference, which is
  absent on a bootstrap entry (\<^verbatim>\<open>NodeName\<close> is a \<^verbatim>\<open>*string\<close>, hence an option); the
  other types have the fields the controller reads or writes.
\<close>

record EndpointAddress =
  IP :: string
  Hostname :: string
  NodeName :: "string option"

record EndpointPort =
  Name :: string
  Port :: int
  Protocol :: string

record EndpointSubset =
  Addresses :: "EndpointAddress list"
  NotReadyAddresses :: "EndpointAddress list"
  Ports :: "EndpointPort list"

record ObjectMeta =
  Name :: string
  Namespace :: string
  Labels :: "(string \<times> string) list"
  Annotations :: "(string \<times> string) list"

record Endpoints =
  ObjectMeta :: ObjectMeta
  Subsets :: "EndpointSubset list"

record Node =
  Name :: string

record Infrastructure =
  EtcdDiscoveryDomain :: string

datatype ConditionStatus = ConditionTrue | ConditionFalse | ConditionUnknown

record OperatorCondition =
  Type :: string
  Status :: ConditionStatus
  Reason :: string
  Message :: string

text \<open>
  What a reconcile does to the outside world, in order: writes to the endpoints store,
  warning events of the event recorder (reason and message), and writes of the operator
  status. \<^verbatim>\<open>klog\<close> output is not recorded.
\<close>

datatype action =
    Create Endpoints
  | Update Endpoints
  | Warning string string
  | UpdateStatus OperatorCondition

text \<open>
  The controller's collaborators, as the responses they give during one reconcile. The
  listers read informer caches that are refreshed asynchronously, so the read of
  \<^verbatim>\<open>host-etcd\<close> in \<^verbatim>\<open>syncHostEndpoints\<close> and the later one in \<^verbatim>\<open>applyEndpoints\<close> each
  have a response of their own. \<^verbatim>\<open>operatorclient.TargetNamespace\<close>,
  \<^verbatim>\<open>dnshelpers.GetPreferredInternalIPAddressForNodeName\<close>, the resolver functions of
  package \<^verbatim>\<open>net\<close> and \<^verbatim>\<open>resourceapply.JSONPatchNoError\<close> are defined outside this file and
  are parameters as well. The type \<open>'net\<close> is the cluster network configuration.
\<close>

record 'net HostEndpointsController =
  TargetNamespace :: string
  endpointsLister_Get :: "go_error + Endpoints"
  endpointsLister_Get_apply :: "go_error + Endpoints"
  infrastructureLister_Get :: "go_error + Infrastructure"
  networkLister_Get :: "go_error + 'net"
  nodeLister_List :: "go_error + Node list"
  GetPreferredInternalIPAddressForNodeName :: "'net \<Rightarrow> Node \<Rightarrow> go_error + string"
  net_LookupSRV :: "string \<Rightarrow> string \<Rightarrow> string \<Rightarrow> go_error + string list"
  net_LookupHost :: "string \<Rightarrow> go_error + string list"
  endpointsClient_Create :: "Endpoints \<Rightarrow> go_error + Endpoints"
  endpointsClient_Update :: "Endpoints \<Rightarrow> go_error + Endpoints"
  JSONPatchNoError :: "Endpoints \<Rightarrow> Endpoints \<Rightarrow> string"
  operatorClient_UpdateStatus :: "OperatorCondition \<Rightarrow> go_error option"

section \<open>String helpers of the Go library\<close>

text \<open>\<^verbatim>\<open>strings.Trim(s, cutset)\<close>: all leading and trailing characters of the cutset removed.\<close>

definition strings_Trim :: "string \<Rightarrow> string \<Rightarrow> string" where
  "strings_Trim s cutset =
     rev (dropWhile (\<lambda>c. c \<in> set cutset) (rev (dropWhile (\<lambda>c. c \<in> set cutset) s)))"

text \<open>\<^verbatim>\<open>strings.HasSuffix\<close> and \<^verbatim>\<open>strings.TrimSuffix\<close>.\<close>

definition strings_HasSuffix :: "string \<Rightarrow> string \<Rightarrow> bool" where
  "strings_HasSuffix s suf =
     (length suf \<le> length s \<and> drop (length s - length suf) s = suf)"

definition strings_TrimSuffix :: "string \<Rightarrow> string \<Rightarrow> string" where
  "strings_TrimSuffix s suf =
     (if strings_HasSuffix s suf then take (length s - length suf) s else s)"

text \<open>
  The \<^verbatim>\<open>%q\<close> verb (\<^verbatim>\<open>strconv.Quote\<close>): the string in double quotes, with a backslash
  before a double quote and a backslash, the control characters as \<^verbatim>\<open>\a \b \f \n \r \t \v\<close>,
  and every other byte below 0x20, and 0x7f, as \<^verbatim>\<open>\x\<close> and two hexadecimal digits. Bytes
  from 0x80 on are kept: Go keeps the printable runes they encode, and escapes the
  others, which is not modelled.
\<close>

definition hex_digit :: "nat \<Rightarrow> char" where
  "hex_digit n = ''0123456789abcdef'' ! (n mod 16)"

definition quote_byte :: "char \<Rightarrow> string" where
  "quote_byte ch =
     (let n = (of_char ch :: nat) in
      if n = 0x22 then [CHR 0x5C, CHR 0x22]
      else if n = 0x5C then [CHR 0x5C, CHR 0x5C]
      else if n = 7 then [CHR 0x5C, CHR ''a'']
      else if n = 8 then [CHR 0x5C, CHR ''b'']
      else if n = 12 then [CHR 0x5C, CHR ''f'']
      else if n = 10 then [CHR 0x5C, CHR ''n'']
      else if n = 13 then [CHR 0x5C, CHR ''r'']
      else if n = 9 then [CHR 0x5C, CHR ''t'']
      else if n = 11 then [CHR 0x5C, CHR ''v'']
      else if n < 0x20 \<or> n = 0x7F
        then [CHR 0x5C, CHR ''x'', hex_digit (n div 16), hex_digit n]
      else [ch])"

definition fmt_q :: "string \<Rightarrow> string" where
  "fmt_q s = CHR 0x22 # concat (map quote_byte s) @ [CHR 0x22]"

section \<open>The DNS identity resolver\<close>

text \<open>
  The loop of \<^verbatim>\<open>reverseLookup\<close> over the SRV targets, with \<^verbatim>\<open>selfTarget\<close> as the
  accumulator. A failed forward lookup returns at once; a later match overwrites an
  earlier one.
\<close>

fun reverseLookup_targets ::
  "'net HostEndpointsController \<Rightarrow> string list \<Rightarrow> string \<Rightarrow> string \<Rightarrow> go_error + string" where
  "reverseLookup_targets c [] ip selfTarget = Inr selfTarget"
| "reverseLookup_targets c (target # srvs) ip selfTarget =
     (case net_LookupHost c target of
        Inl err \<Rightarrow> Inl (fmt_Errorf (''could not resolve member '' @ fmt_q target))
      | Inr addrs \<Rightarrow>
          reverseLookup_targets c srvs ip
            (if ip \<in> set addrs then strings_Trim target ''.'' else selfTarget))"

definition reverseLookup ::
  "'net HostEndpointsController \<Rightarrow> string \<Rightarrow> string \<Rightarrow> string \<Rightarrow> string \<Rightarrow> go_error + string" where
  "reverseLookup c service proto name ip =
     (case net_LookupSRV c service proto name of
        Inl err \<Rightarrow> Inl err
      | Inr srvs \<Rightarrow>
          (case reverseLookup_targets c srvs ip [] of
             Inl err \<Rightarrow> Inl err
           | Inr selfTarget \<Rightarrow>
               if selfTarget = [] then Inl (fmt_Errorf ''could not find self'')
               else Inr selfTarget))"

definition getEtcdDNSName ::
  "'net HostEndpointsController \<Rightarrow> string \<Rightarrow> string \<Rightarrow> go_error + string" where
  "getEtcdDNSName c discoveryDomain ip =
     (case reverseLookup c ''etcd-server-ssl'' ''tcp'' discoveryDomain ip of
        Inl err \<Rightarrow> Inl err
      | Inr dnsName \<Rightarrow> Inr dnsName)"

definition getEtcdDiscoveryDomain :: "'net HostEndpointsController \<Rightarrow> go_error + string" where
  "getEtcdDiscoveryDomain c =
     (case infrastructureLister_Get c of
        Inl err \<Rightarrow> Inl err
      | Inr infrastructure \<Rightarrow>
          if length (EtcdDiscoveryDomain infrastructure) = 0
          then Inl (fmt_Errorf
            ''infrastructures.config.openshit.io/cluster missing .status.etcdDiscoveryDomain'')
          else Inr (EtcdDiscoveryDomain infrastructure))"

section \<open>Subset equality\<close>

text \<open>
  The body of the closure returned by \<^verbatim>\<open>newEndpointAddressSliceComparator\<close>, on the two
  slice elements it indexes. The default case dereferences both \<^verbatim>\<open>NodeName\<close> pointers.
\<close>

definition newEndpointAddressSliceComparator ::
  "EndpointAddress \<Rightarrow> EndpointAddress \<Rightarrow> panic + bool" where
  "newEndpointAddressSliceComparator a b =
     (if IP a \<noteq> IP b then Inr (IP a < IP b)
      else if Hostname a \<noteq> Hostname b then Inr (Hostname a < Hostname b)
      else (case (NodeName a, NodeName b) of
              (Some m, Some n) \<Rightarrow> Inr (m < n)
            | _ \<Rightarrow> Inl NilPointerDereference))"

text \<open>
  \<^verbatim>\<open>sort.Slice\<close> belongs to the Go library. It is modelled by the insertion sort it runs on
  short slices: each element in turn moves left past the elements it is less than. The
  prefix already sorted is kept in reverse, the greatest element first.
\<close>

fun sort_Slice_insert ::
  "('a \<Rightarrow> 'a \<Rightarrow> panic + bool) \<Rightarrow> 'a \<Rightarrow> 'a list \<Rightarrow> panic + 'a list" where
  "sort_Slice_insert cmp x [] = Inr [x]"
| "sort_Slice_insert cmp x (y # ys) =
     (case cmp x y of
        Inl p \<Rightarrow> Inl p
      | Inr True \<Rightarrow>
          (case sort_Slice_insert cmp x ys of
             Inl p \<Rightarrow> Inl p
           | Inr zs \<Rightarrow> Inr (y # zs))
      | Inr False \<Rightarrow> Inr (x # y # ys))"

fun sort_Slice_from ::
  "('a \<Rightarrow> 'a \<Rightarrow> panic + bool) \<Rightarrow> 'a list \<Rightarrow> 'a list \<Rightarrow> panic + 'a list" where
  "sort_Slice_from cmp [] sorted_rev = Inr (rev sorted_rev)"
| "sort_Slice_from cmp (x # xs) sorted_rev =
     (case sort_Slice_insert cmp x sorted_rev of
        Inl p \<Rightarrow> Inl p
      | Inr sorted_rev' \<Rightarrow> sort_Slice_from cmp xs sorted_rev')"

definition sort_Slice :: "('a \<Rightarrow> 'a \<Rightarrow> panic + bool) \<Rightarrow> 'a list \<Rightarrow> panic + 'a list" where
  "sort_Slice cmp xs = sort_Slice_from cmp xs []"

text \<open>
  \<^verbatim>\<open>endpointSubsetEqual\<close>: three length checks, then both address lists are copied,
  sorted (the left one first) and compared with \<^verbatim>\<open>reflect.DeepEqual\<close>.
\<close>

definition endpointSubsetEqual :: "EndpointSubset \<Rightarrow> EndpointSubset \<Rightarrow> panic + bool" where
  "endpointSubsetEqual lhs rhs =
     (if length (Addresses lhs) \<noteq> length (Addresses rhs) then Inr False
      else if length (NotReadyAddresses lhs) \<noteq> length (NotReadyAddresses rhs) then Inr False
      else if length (Ports lhs) \<noteq> length (Ports rhs) then Inr False
      else (case sort_Slice newEndpointAddressSliceComparator (Addresses lhs) of
              Inl p \<Rightarrow> Inl p
            | Inr lhsAddresses \<Rightarrow>
                (case sort_Slice newEndpointAddressSliceComparator (Addresses rhs) of
                   Inl p \<Rightarrow> Inl p
                 | Inr rhsAddresses \<Rightarrow> Inr (lhsAddresses = rhsAddresses))))"

text \<open>The loop of \<^verbatim>\<open>endpointsSubsetsEqual\<close> over the indices of \<^verbatim>\<open>lhs\<close>.\<close>

fun endpointsSubsetsEqual_from :: "EndpointSubset list \<Rightarrow> EndpointSubset list \<Rightarrow> panic + bool" where
  "endpointsSubsetsEqual_from [] rhs = Inr True"
| "endpointsSubsetsEqual_from (l # lhs) [] = Inl IndexOutOfRange"
| "endpointsSubsetsEqual_from (l # lhs) (r # rhs) =
     (case endpointSubsetEqual l r of
        Inl p \<Rightarrow> Inl p
      | Inr False \<Rightarrow> Inr False
      | Inr True \<Rightarrow> endpointsSubsetsEqual_from lhs rhs)"

definition endpointsSubsetsEqual :: "EndpointSubset list \<Rightarrow> EndpointSubset list \<Rightarrow> panic + bool" where
  "endpointsSubsetsEqual lhs rhs =
     (if length lhs \<noteq> length rhs then Inr False else endpointsSubsetsEqual_from lhs rhs)"

section \<open>Metadata merge\<close>

text \<open>
  Modelled from the spec: \<^verbatim>\<open>resourcemerge.EnsureObjectMeta\<close> is not part of this source
  file. Name and namespace are overwritten when the required one is set and differs;
  labels and annotations are merged additively: every key of \<^verbatim>\<open>required\<close> is set or
  overwritten, the other keys are kept. Any change sets \<^verbatim>\<open>modified\<close>.
\<close>

definition SetStringIfSet :: "bool \<Rightarrow> string \<Rightarrow> string \<Rightarrow> bool \<times> string" where
  "SetStringIfSet modified existing required =
     (if length required = 0 then (modified, existing)
      else if required \<noteq> existing then (True, required)
      else (modified, existing))"

fun MergeMap ::
  "bool \<Rightarrow> (string \<times> string) list \<Rightarrow> (string \<times> string) list \<Rightarrow> bool \<times> (string \<times> string) list" where
  "MergeMap modified existing [] = (modified, existing)"
| "MergeMap modified existing ((k, v) # required) =
     (if map_of existing k = Some v then MergeMap modified existing required
      else MergeMap True (AList.update k v existing) required)"

definition EnsureObjectMeta :: "bool \<Rightarrow> ObjectMeta \<Rightarrow> ObjectMeta \<Rightarrow> bool \<times> ObjectMeta" where
  "EnsureObjectMeta modified existing required =
     (let (m1, namespace) = SetStringIfSet modified (Namespace existing) (Namespace required);
          (m2, name) = SetStringIfSet m1 (ObjectMeta.Name existing) (ObjectMeta.Name required);
          (m3, labels) = MergeMap m2 (Labels existing) (Labels required);
          (m4, annotations) = MergeMap m3 (Annotations existing) (Annotations required)
      in (m4, \<lparr>ObjectMeta.Name = name, Namespace = namespace,
               Labels = labels, Annotations = annotations\<rparr>))"

section \<open>The apply/write client\<close>

text \<open>
  \<^verbatim>\<open>applyEndpoints\<close>. The error of \<^verbatim>\<open>Create\<close> is bound by \<^verbatim>\<open>:=\<close> inside the not-found
  branch and shadows the lister's error there only: the check \<^verbatim>\<open>if err != nil\<close> that
  follows the branch tests the lister's error again.
\<close>

definition applyEndpoints ::
  "'net HostEndpointsController \<Rightarrow> Endpoints \<Rightarrow> (failure + unit) \<times> action list" where
  "applyEndpoints c required =
     (case endpointsLister_Get_apply c of
        Inl err \<Rightarrow>
          if IsNotFound err then
            (case endpointsClient_Create c required of
               Inl createErr \<Rightarrow>
                 (Inl (Returned createErr),
                  [Create required,
                   Warning ''EndpointsCreateFailed''
                     (''Failed to create endpoints/'' @ ObjectMeta.Name (ObjectMeta required)
                      @ '' -n '' @ Namespace (ObjectMeta required)
                      @ '': '' @ ErrorText createErr)])
             | Inr created \<Rightarrow>
                 (Inl (Returned err),
                  [Create required,
                   Warning ''EndpointsCreated''
                     (''Created endpoints/'' @ ObjectMeta.Name (ObjectMeta required)
                      @ '' -n '' @ Namespace (ObjectMeta required)
                      @ '' because it was missing'')]))
          else (Inl (Returned err), [])
      | Inr existing \<Rightarrow>
          (let (modified, meta) =
                 EnsureObjectMeta False (ObjectMeta existing) (ObjectMeta required)
           in case endpointsSubsetsEqual (Subsets existing) (Subsets required) of
                Inl p \<Rightarrow> (Inl (Panicked p), [])
              | Inr equal \<Rightarrow>
                  (let toWrite =
                         (if equal then existing\<lparr>ObjectMeta := meta\<rparr>
                          else existing\<lparr>ObjectMeta := meta, Subsets := Subsets required\<rparr>);
                       modified = (modified \<or> \<not> equal)
                   in if \<not> modified then (Inr (), [])
                      else
                        (case endpointsClient_Update c toWrite of
                           Inl err \<Rightarrow>
                             (Inl (Returned err),
                              [Update toWrite,
                               Warning ''EndpointsUpdateFailed''
                                 (''Failed to update endpoints/''
                                  @ ObjectMeta.Name (ObjectMeta required)
                                  @ '' -n '' @ Namespace (ObjectMeta required)
                                  @ '': '' @ ErrorText err)])
                         | Inr updated \<Rightarrow>
                             (Inr (),
                              [Update toWrite,
                               Warning ''EndpointsUpdated''
                                 (''Updated endpoints/''
                                  @ ObjectMeta.Name (ObjectMeta required)
                                  @ '' -n '' @ Namespace (ObjectMeta required)
                                  @ '' because it changed: ''
                                  @ JSONPatchNoError c existing toWrite)])))))"

section \<open>The desired state and the reconcile\<close>

definition hostEndpointsAsset :: "string \<Rightarrow> Endpoints" where
  "hostEndpointsAsset targetNamespace =
     \<lparr>ObjectMeta =
        \<lparr>ObjectMeta.Name = ''host-etcd'', Namespace = targetNamespace,
         Labels = [], Annotations = []\<rparr>,
      Subsets =
        [\<lparr>Addresses = [], NotReadyAddresses = [],
          Ports = [\<lparr>EndpointPort.Name = ''etcd'', Port = 2379, Protocol = ''TCP''\<rparr>]\<rparr>]\<rparr>"

text \<open>
  The loop of \<^verbatim>\<open>syncHostEndpoints\<close> over the member nodes, with \<^verbatim>\<open>endpointAddresses\<close>
  as the accumulator; the first failure returns.
\<close>

fun syncHostEndpoints_nodes ::
  "'net HostEndpointsController \<Rightarrow> string \<Rightarrow> 'net \<Rightarrow> Node list \<Rightarrow> EndpointAddress list
     \<Rightarrow> go_error + EndpointAddress list" where
  "syncHostEndpoints_nodes c discoveryDomain network [] endpointAddresses =
     Inr endpointAddresses"
| "syncHostEndpoints_nodes c discoveryDomain network (node # nodes) endpointAddresses =
     (case GetPreferredInternalIPAddressForNodeName c network node of
        Inl err \<Rightarrow> Inl err
      | Inr nodeInternalIP \<Rightarrow>
          if length nodeInternalIP = 0
          then Inl (fmt_Errorf
                 (''unable to determine internal ip address for node '' @ Node.Name node))
          else
            (case getEtcdDNSName c discoveryDomain nodeInternalIP of
               Inl err \<Rightarrow>
                 Inl (fmt_Errorf
                   (''unable to determine etcd member dns name for node '' @ Node.Name node
                    @ '': '' @ ErrorText err))
             | Inr dnsName \<Rightarrow>
                 syncHostEndpoints_nodes c discoveryDomain network nodes
                   (endpointAddresses @
                    [\<lparr>IP = nodeInternalIP,
                      Hostname = strings_TrimSuffix dnsName (''.'' @ discoveryDomain),
                      NodeName = Some (Node.Name node)\<rparr>])))"

text \<open>
  The loop that keeps \<^verbatim>\<open>etcd-bootstrap\<close>: the first address of the existing subset with
  that hostname is appended, and the loop breaks.
\<close>

fun syncHostEndpoints_bootstrap ::
  "EndpointAddress list \<Rightarrow> EndpointAddress list \<Rightarrow> EndpointAddress list" where
  "syncHostEndpoints_bootstrap [] endpointAddresses = endpointAddresses"
| "syncHostEndpoints_bootstrap (endpointAddress # existingAddresses) endpointAddresses =
     (if Hostname endpointAddress = ''etcd-bootstrap''
      then endpointAddresses @ [endpointAddress]
      else syncHostEndpoints_bootstrap existingAddresses endpointAddresses)"

text \<open>
  \<^verbatim>\<open>syncHostEndpoints\<close> up to its last statement: the object \<^verbatim>\<open>required\<close> that is handed
  to \<^verbatim>\<open>applyEndpoints\<close>, or the failure that ends the function before. The asset has
  exactly one subset, so \<^verbatim>\<open>required.Subsets[0]\<close> is in range; \<^verbatim>\<open>existing.Subsets[0]\<close> is
  not checked by the code and panics on an empty list.
\<close>

definition syncHostEndpoints_required :: "'net HostEndpointsController \<Rightarrow> failure + Endpoints" where
  "syncHostEndpoints_required c =
     (case endpointsLister_Get c of
        Inl err \<Rightarrow> Inl (Returned err)
      | Inr existing \<Rightarrow>
     (let required = hostEndpointsAsset (TargetNamespace c) in
      case getEtcdDiscoveryDomain c of
        Inl err \<Rightarrow>
          Inl (Returned (fmt_Errorf
            (''unable to determine etcd discovery domain: '' @ ErrorText err)))
      | Inr discoveryDomain \<Rightarrow>
     (let required = required\<lparr>ObjectMeta := (ObjectMeta required)
            \<lparr>Annotations :=
               AList.update ''alpha.installer.openshift.io/dns-suffix'' discoveryDomain
                 (Annotations (ObjectMeta required))\<rparr>\<rparr> in
      case networkLister_Get c of
        Inl err \<Rightarrow> Inl (Returned err)
      | Inr network \<Rightarrow>
     (case nodeLister_List c of
        Inl err \<Rightarrow>
          Inl (Returned (fmt_Errorf
            (''unable to list expected etcd member nodes: '' @ ErrorText err)))
      | Inr nodes \<Rightarrow>
     (case syncHostEndpoints_nodes c discoveryDomain network nodes [] of
        Inl err \<Rightarrow> Inl (Returned err)
      | Inr endpointAddresses \<Rightarrow>
     (case Subsets existing of
        [] \<Rightarrow> Inl (Panicked IndexOutOfRange)
      | firstSubset # _ \<Rightarrow>
     (let endpointAddresses = syncHostEndpoints_bootstrap (Addresses firstSubset) endpointAddresses;
          required = required\<lparr>Subsets :=
            (Subsets required)[0 := (Subsets required ! 0)\<lparr>Addresses := endpointAddresses\<rparr>]\<rparr>
      in if length (Addresses (Subsets required ! 0)) = 0
         then Inl (Returned (fmt_Errorf ''no etcd member nodes are ready''))
         else Inr required)))))))"

definition syncHostEndpoints ::
  "'net HostEndpointsController \<Rightarrow> (failure + unit) \<times> action list" where
  "syncHostEndpoints c =
     (case syncHostEndpoints_required c of
        Inl f \<Rightarrow> (Inl f, [])
      | Inr required \<Rightarrow> applyEndpoints c required)"

section \<open>The status reporter\<close>

definition sync :: "'net HostEndpointsController \<Rightarrow> (failure + unit) \<times> action list" where
  "sync c =
     (case syncHostEndpoints c of
        (Inl (Panicked p), log) \<Rightarrow> (Inl (Panicked p), log)
      | (Inl (Returned err), log) \<Rightarrow>
          (let condition =
                 \<lparr>Type = ''HostEndpointsDegraded'', Status = ConditionTrue,
                  Reason = ''ErrorUpdatingHostEndpoints'', Message = ErrorText err\<rparr>
           in case operatorClient_UpdateStatus c condition of
                Some updateErr \<Rightarrow>
                  (Inl (Returned err),
                   log @ [UpdateStatus condition,
                          Warning ''HostEndpointsErrorUpdatingStatus'' (ErrorText updateErr)])
              | None \<Rightarrow> (Inl (Returned err), log @ [UpdateStatus condition]))
      | (Inr u, log) \<Rightarrow>
          (let condition =
                 \<lparr>Type = ''HostEndpointsDegraded'', Status = ConditionFalse,
                  Reason = ''HostEndpointsUpdated'', Message = []\<rparr>
           in case operatorClient_UpdateStatus c condition of
                Some updateErr \<Rightarrow>
                  (Inl (Returned updateErr),
                   log @ [UpdateStatus condition,
                          Warning ''HostEndpointsErrorUpdatingStatus'' (ErrorText updateErr)])
              | None \<Rightarrow> (Inr (), log @ [UpdateStatus condition])))"

section \<open>The published object between two reconciles\<close>

text \<open>
  Modelled from the spec: the store behind the endpoints client and the lister is not part
  of this source file. Its \<^verbatim>\<open>create\<close> and \<^verbatim>\<open>update\<close> replace the published object by the
  object they are given, and \<^verbatim>\<open>get\<close> returns the published object. \<open>written\<close> is the
  object that a list of actions leaves published, if it writes at all, and
  \<open>after_reconcile\<close> is the controller as the next reconcile finds it: every other
  collaborator answers as before, and both reads of \<^verbatim>\<open>host-etcd\<close> return what the
  reconcile wrote.
\<close>

fun written :: "action list \<Rightarrow> Endpoints option" where
  "written [] = None"
| "written (a # as) =
     (case written as of
        Some later \<Rightarrow> Some later
      | None \<Rightarrow> (case a of Create e \<Rightarrow> Some e | Update e \<Rightarrow> Some e | _ \<Rightarrow> None))"

definition after_reconcile :: "'net HostEndpointsController \<Rightarrow> 'net HostEndpointsController" where
  "after_reconcile c =
     (case written (snd (syncHostEndpoints c)) of
        None \<Rightarrow> c
      | Some published \<Rightarrow>
          c\<lparr>endpointsLister_Get := Inr published, endpointsLister_Get_apply := Inr published\<rparr>)"

section \<open>The comparator's precondition\<close>

text \<open>
  Two addresses are tied on a nil node name when they have the same IP and the same
  hostname and one of them has no node name: the comparator then reaches its default case
  and dereferences a nil pointer. A list is free of such ties when no two of its
  elements, at different positions, are tied.
\<close>

definition nilNodeNameTie :: "EndpointAddress \<Rightarrow> EndpointAddress \<Rightarrow> bool" where
  "nilNodeNameTie a b =
     (IP a = IP b \<and> Hostname a = Hostname b \<and> (NodeName a = None \<or> NodeName b = None))"

definition tieFree :: "EndpointAddress list \<Rightarrow> bool" where
  "tieFree xs = sorted_wrt (\<lambda>a b. \<not> nilNodeNameTie a b) xs"

text \<open>
  The tuple the comparator orders by, with the lexicographic order of tuples and
  \<open>None\<close> below every node name; and lists that descend in it.
\<close>

definition addressKey :: "EndpointAddress \<Rightarrow> string \<times> string \<times> string option" where
  "addressKey a = (IP a, Hostname a, NodeName a)"

abbreviation descending :: "EndpointAddress list \<Rightarrow> bool" where
  "descending xs \<equiv> sorted_wrt (\<lambda>a b. addressKey b \<le> addressKey a) xs"

section \<open>Example clusters\<close>

text \<open>
  A cluster in its bootstrap phase: the published object holds the bootstrap entry only,
  two member nodes exist, and the SRV record of the discovery domain names one target for
  each of them.
\<close>

definition example_bootstrap :: EndpointAddress where
  "example_bootstrap = \<lparr>IP = ''10.0.0.9'', Hostname = ''etcd-bootstrap'', NodeName = None\<rparr>"

definition example_existing :: Endpoints where
  "example_existing =
     \<lparr>ObjectMeta =
        \<lparr>ObjectMeta.Name = ''host-etcd'', Namespace = ''openshift-etcd'',
         Labels = [], Annotations = []\<rparr>,
      Subsets =
        [\<lparr>Addresses = [example_bootstrap], NotReadyAddresses = [],
          Ports = [\<lparr>EndpointPort.Name = ''etcd'', Port = 2379, Protocol = ''TCP''\<rparr>]\<rparr>]\<rparr>"

definition example_nodes :: "Node list" where
  "example_nodes = [\<lparr>Node.Name = ''master-0''\<rparr>, \<lparr>Node.Name = ''master-1''\<rparr>]"

definition example_controller :: "unit HostEndpointsController" where
  "example_controller =
     \<lparr>TargetNamespace = ''openshift-etcd'',
      endpointsLister_Get = Inr example_existing,
      endpointsLister_Get_apply = Inr example_existing,
      infrastructureLister_Get = Inr \<lparr>EtcdDiscoveryDomain = ''example.com''\<rparr>,
      networkLister_Get = Inr (),
      nodeLister_List = Inr example_nodes,
      GetPreferredInternalIPAddressForNodeName =
        (\<lambda>network node.
           if Node.Name node = ''master-0'' then Inr ''10.0.0.1''
           else if Node.Name node = ''master-1'' then Inr ''10.0.0.2''
           else Inl (GoError False ''no internal ip'')),
      net_LookupSRV =
        (\<lambda>service proto name.
           if service = ''etcd-server-ssl'' \<and> proto = ''tcp'' \<and> name = ''example.com''
           then Inr [''a.example.com.'', ''b.example.com.'']
           else Inl (GoError False ''no such host'')),
      net_LookupHost =
        (\<lambda>host.
           if host = ''a.example.com.'' then Inr [''10.0.0.1'']
           else if host = ''b.example.com.'' then Inr [''10.0.0.2'']
           else Inl (GoError False ''no such host'')),
      endpointsClient_Create = (\<lambda>required. Inr required),
      endpointsClient_Update = (\<lambda>toWrite. Inr toWrite),
      JSONPatchNoError = (\<lambda>original modified. ''patch''),
      operatorClient_UpdateStatus = (\<lambda>condition. None)\<rparr>"

definition example_not_found :: go_error where
  "example_not_found = GoError True ''endpoints host-etcd not found''"

text \<open>
  The object the reconcile of the example cluster asks for, and a published object that
  holds the same addresses in another order, with a label of its own.
\<close>

definition example_required :: Endpoints where
  "example_required =
     \<lparr>ObjectMeta =
        \<lparr>ObjectMeta.Name = ''host-etcd'', Namespace = ''openshift-etcd'',
         Labels = [],
         Annotations = [(''alpha.installer.openshift.io/dns-suffix'', ''example.com'')]\<rparr>,
      Subsets =
        [\<lparr>Addresses =
            [\<lparr>IP = ''10.0.0.1'', Hostname = ''a'', NodeName = Some ''master-0''\<rparr>,
             \<lparr>IP = ''10.0.0.2'', Hostname = ''b'', NodeName = Some ''master-1''\<rparr>,
             example_bootstrap],
          NotReadyAddresses = [],
          Ports = [\<lparr>EndpointPort.Name = ''etcd'', Port = 2379, Protocol = ''TCP''\<rparr>]\<rparr>]\<rparr>"

definition example_published :: Endpoints where
  "example_published =
     \<lparr>ObjectMeta =
        \<lparr>ObjectMeta.Name = ''host-etcd'', Namespace = ''openshift-etcd'',
         Labels = [(''app'', ''etcd'')],
         Annotations = [(''alpha.installer.openshift.io/dns-suffix'', ''example.com'')]\<rparr>,
      Subsets =
        [\<lparr>Addresses =
            [example_bootstrap,
             \<lparr>IP = ''10.0.0.2'', Hostname = ''b'', NodeName = Some ''master-1''\<rparr>,
             \<lparr>IP = ''10.0.0.1'', Hostname = ''a'', NodeName = Some ''master-0''\<rparr>],
          NotReadyAddresses = [],
          Ports = [\<lparr>EndpointPort.Name = ''etcd'', Port = 2379, Protocol = ''TCP''\<rparr>]\<rparr>]\<rparr>"

definition example_synced_controller :: "unit HostEndpointsController" where
  "example_synced_controller =
     example_controller\<lparr>endpointsLister_Get := Inr example_published,
                        endpointsLister_Get_apply := Inr example_published\<rparr>"

definition example_status_error :: go_error where
  "example_status_error = GoError False ''the object has been modified''"

definition example_status_failing_controller :: "unit HostEndpointsController" where
  "example_status_failing_controller =
     example_synced_controller
       \<lparr>operatorClient_UpdateStatus := (\<lambda>condition. Some example_status_error)\<rparr>"

text \<open>
  Variants of the example: a published object with two bootstrap entries, a cluster
  without member nodes, and a published object without any address.
\<close>

definition example_other_bootstrap :: EndpointAddress where
  "example_other_bootstrap =
     \<lparr>IP = ''10.0.0.8'', Hostname = ''etcd-bootstrap'', NodeName = None\<rparr>"

definition example_two_bootstraps :: Endpoints where
  "example_two_bootstraps =
     example_existing
       \<lparr>Subsets :=
          [\<lparr>Addresses = [example_bootstrap, example_other_bootstrap], NotReadyAddresses = [],
            Ports = [\<lparr>EndpointPort.Name = ''etcd'', Port = 2379, Protocol = ''TCP''\<rparr>]\<rparr>]\<rparr>"

definition example_two_bootstraps_controller :: "unit HostEndpointsController" where
  "example_two_bootstraps_controller =
     example_controller\<lparr>endpointsLister_Get := Inr example_two_bootstraps,
                        endpointsLister_Get_apply := Inr example_two_bootstraps\<rparr>"

definition example_no_nodes_controller :: "unit HostEndpointsController" where
  "example_no_nodes_controller = example_controller\<lparr>nodeLister_List := Inr []\<rparr>"

definition example_bootstrap_only :: Endpoints where
  "example_bootstrap_only =
     example_existing
       \<lparr>ObjectMeta :=
          \<lparr>ObjectMeta.Name = ''host-etcd'', Namespace = ''openshift-etcd'', Labels = [],
           Annotations = [(''alpha.installer.openshift.io/dns-suffix'', ''example.com'')]\<rparr>\<rparr>"

definition example_no_address :: Endpoints where
  "example_no_address =
     example_existing
       \<lparr>Subsets :=
          [\<lparr>Addresses = [], NotReadyAddresses = [],
            Ports = [\<lparr>EndpointPort.Name = ''etcd'', Port = 2379, Protocol = ''TCP''\<rparr>]\<rparr>]\<rparr>"

definition example_no_address_controller :: "unit HostEndpointsController" where
  "example_no_address_controller =
     example_controller\<lparr>endpointsLister_Get := Inr example_no_address,
                        endpointsLister_Get_apply := Inr example_no_address,
                        nodeLister_List := Inr []\<rparr>"

definition example_lookup_error :: go_error where
  "example_lookup_error = GoError False ''i/o timeout''"

text \<open>
  A member address with the IP and the hostname of the bootstrap entry, and two subsets
  that hold both addresses, in the two orders.
\<close>

definition example_tied_member :: EndpointAddress where
  "example_tied_member =
     \<lparr>IP = ''10.0.0.9'', Hostname = ''etcd-bootstrap'', NodeName = Some ''master-2''\<rparr>"

definition example_tied_subset :: EndpointSubset where
  "example_tied_subset =
     \<lparr>Addresses = [example_bootstrap, example_tied_member], NotReadyAddresses = [],
      Ports = [\<lparr>EndpointPort.Name = ''etcd'', Port = 2379, Protocol = ''TCP''\<rparr>]\<rparr>"

definition example_tied_subset_swapped :: EndpointSubset where
  "example_tied_subset_swapped =
     \<lparr>Addresses = [example_tied_member, example_bootstrap], NotReadyAddresses = [],
      Ports = [\<lparr>EndpointPort.Name = ''etcd'', Port = 2379, Protocol = ''TCP''\<rparr>]\<rparr>"

text \<open>
  A cluster whose only member node resolves to the DNS name
  \<^verbatim>\<open>etcd-bootstrap.example.com\<close>, and the objects its first and its second reconcile write.
\<close>

definition example_named_bootstrap_controller :: "unit HostEndpointsController" where
  "example_named_bootstrap_controller =
     example_controller
       \<lparr>nodeLister_List := Inr [\<lparr>Node.Name = ''master-0''\<rparr>],
        net_LookupSRV := (\<lambda>service proto name. Inr [''etcd-bootstrap.example.com.'']),
        net_LookupHost := (\<lambda>host. Inr [''10.0.0.1''])\<rparr>"

definition example_named_member :: EndpointAddress where
  "example_named_member =
     \<lparr>IP = ''10.0.0.1'', Hostname = ''etcd-bootstrap'', NodeName = Some ''master-0''\<rparr>"

definition example_named_first :: Endpoints where
  "example_named_first =
     example_bootstrap_only
       \<lparr>Subsets :=
          [\<lparr>Addresses = [example_named_member, example_bootstrap], NotReadyAddresses = [],
            Ports = [\<lparr>EndpointPort.Name = ''etcd'', Port = 2379, Protocol = ''TCP''\<rparr>]\<rparr>]\<rparr>"

definition example_named_second :: Endpoints where
  "example_named_second =
     example_bootstrap_only
       \<lparr>Subsets :=
          [\<lparr>Addresses = [example_named_member, example_named_member], NotReadyAddresses = [],
            Ports = [\<lparr>EndpointPort.Name = ''etcd'', Port = 2379, Protocol = ''TCP''\<rparr>]\<rparr>]\<rparr>"

section \<open>Properties\<close>

subsection \<open>The example cluster\<close>

lemmas example_defs =
  example_controller_def example_existing_def example_bootstrap_def example_nodes_def
  example_not_found_def example_required_def example_published_def
  example_synced_controller_def

lemmas equal_defs =
  endpointsSubsetsEqual_def endpointSubsetEqual_def sort_Slice_def
  newEndpointAddressSliceComparator_def

lemmas resolver_defs =
  getEtcdDNSName_def getEtcdDiscoveryDomain_def reverseLookup_def
  strings_Trim_def strings_TrimSuffix_def strings_HasSuffix_def

lemma example_discoveryDomain:
  "getEtcdDiscoveryDomain example_controller = Inr ''example.com''"
  by (simp add: example_defs resolver_defs)

lemma example_member_addresses:
  "syncHostEndpoints_nodes example_controller ''example.com'' () example_nodes [] =
     Inr [\<lparr>IP = ''10.0.0.1'', Hostname = ''a'', NodeName = Some ''master-0''\<rparr>,
          \<lparr>IP = ''10.0.0.2'', Hostname = ''b'', NodeName = Some ''master-1''\<rparr>]"
  by (simp add: example_defs resolver_defs)

lemma example_required:
  "syncHostEndpoints_required example_controller = Inr example_required"
  by (simp add: syncHostEndpoints_required_def hostEndpointsAsset_def example_defs resolver_defs)

lemma example_synced_required:
  "syncHostEndpoints_required example_synced_controller = Inr example_required"
  by (simp add: syncHostEndpoints_required_def hostEndpointsAsset_def example_defs resolver_defs)

lemma example_status_failing_required:
  "syncHostEndpoints_required example_status_failing_controller = Inr example_required"
  by (simp add: syncHostEndpoints_required_def hostEndpointsAsset_def example_defs resolver_defs
      example_status_failing_controller_def)

lemma example_subsets_equal:
  "endpointsSubsetsEqual (Subsets example_published) (Subsets example_required) = Inr True"
  by (simp add: example_defs equal_defs)

lemma example_meta_unchanged:
  "fst (EnsureObjectMeta False (ObjectMeta example_published) (ObjectMeta example_required))
     = False"
  by (simp add: example_defs EnsureObjectMeta_def SetStringIfSet_def)

subsection \<open>The apply/write client\<close>

lemma applyEndpoints_unchanged:
  assumes "endpointsLister_Get_apply c = Inr existing"
    and "fst (EnsureObjectMeta False (ObjectMeta existing) (ObjectMeta required)) = False"
    and "endpointsSubsetsEqual (Subsets existing) (Subsets required) = Inr True"
  shows "applyEndpoints c required = (Inr (), [])"
  using assms
  by (cases "EnsureObjectMeta False (ObjectMeta existing) (ObjectMeta required)")
     (simp add: applyEndpoints_def)

lemma example_synced_reconcile:
  "syncHostEndpoints example_synced_controller = (Inr (), [])"
proof -
  have "endpointsLister_Get_apply example_synced_controller = Inr example_published"
    by (simp add: example_synced_controller_def example_controller_def)
  from applyEndpoints_unchanged [OF this example_meta_unchanged example_subsets_equal]
  show ?thesis by (simp add: syncHostEndpoints_def example_synced_required)
qed

lemma example_status_failing_reconcile:
  "syncHostEndpoints example_status_failing_controller = (Inr (), [])"
proof -
  have "endpointsLister_Get_apply example_status_failing_controller = Inr example_published"
    by (simp add: example_status_failing_controller_def example_synced_controller_def
        example_controller_def)
  from applyEndpoints_unchanged [OF this example_meta_unchanged example_subsets_equal]
  show ?thesis by (simp add: syncHostEndpoints_def example_status_failing_required)
qed

text \<open>
  C7. When the read of the current object reports not-found and the create succeeds,
  \<^verbatim>\<open>applyEndpoints\<close> creates the object from \<^verbatim>\<open>required\<close> and emits the "created"
  notification, and then returns the not-found error of the read, not nil.
\<close>

theorem applyEndpoints_created_returns_not_found:
  assumes "endpointsLister_Get_apply c = Inl err"
    and "IsNotFound err"
    and "endpointsClient_Create c required = Inr created"
  shows "applyEndpoints c required =
    (Inl (Returned err),
     [Create required,
      Warning ''EndpointsCreated''
        (''Created endpoints/'' @ ObjectMeta.Name (ObjectMeta required)
         @ '' -n '' @ Namespace (ObjectMeta required) @ '' because it was missing'')])"
  using assms by (simp add: applyEndpoints_def)

theorem applyEndpoints_created_returns_not_found_witness:
  "applyEndpoints (example_controller\<lparr>endpointsLister_Get_apply := Inl example_not_found\<rparr>)
      example_existing =
     (Inl (Returned example_not_found),
      [Create example_existing,
       Warning ''EndpointsCreated''
         ''Created endpoints/host-etcd -n openshift-etcd because it was missing''])"
  using applyEndpoints_created_returns_not_found
    [of "example_controller\<lparr>endpointsLister_Get_apply := Inl example_not_found\<rparr>"
        example_not_found example_existing example_existing]
  by (simp add: example_controller_def example_existing_def example_not_found_def)

subsection \<open>Panics of the reconcile\<close>

text \<open>
  C9. \<^verbatim>\<open>syncHostEndpoints\<close> reads \<^verbatim>\<open>existing.Subsets[0]\<close> without a length check: when
  every step before the bootstrap scan succeeds and the existing object has no subset,
  the reconcile panics with an index out of range, and nothing is written.
\<close>

theorem syncHostEndpoints_panics_without_subset:
  assumes "endpointsLister_Get c = Inr existing"
    and "getEtcdDiscoveryDomain c = Inr discoveryDomain"
    and "networkLister_Get c = Inr network"
    and "nodeLister_List c = Inr nodes"
    and "syncHostEndpoints_nodes c discoveryDomain network nodes [] = Inr endpointAddresses"
    and "Subsets existing = []"
  shows "syncHostEndpoints c = (Inl (Panicked IndexOutOfRange), [])"
  using assms by (simp add: syncHostEndpoints_def syncHostEndpoints_required_def)

theorem syncHostEndpoints_panics_without_subset_witness:
  "syncHostEndpoints
     (example_controller\<lparr>endpointsLister_Get := Inr (example_existing\<lparr>Subsets := []\<rparr>)\<rparr>) =
   (Inl (Panicked IndexOutOfRange), [])"
  using syncHostEndpoints_panics_without_subset
    [of "example_controller\<lparr>endpointsLister_Get := Inr (example_existing\<lparr>Subsets := []\<rparr>)\<rparr>"
        "example_existing\<lparr>Subsets := []\<rparr>" "''example.com''" "()" example_nodes]
  by (simp add: example_defs resolver_defs)

subsection \<open>The status reporter\<close>

text \<open>
  C8, as the code has it. When the reconcile returns an error, \<^verbatim>\<open>sync\<close> writes the
  condition \<^verbatim>\<open>HostEndpointsDegraded\<close> = True with reason \<^verbatim>\<open>ErrorUpdatingHostEndpoints\<close>
  and the error text as message, emits the warning \<^verbatim>\<open>HostEndpointsErrorUpdatingStatus\<close>
  if that status write fails, and returns the error of the reconcile either way. When
  the reconcile returns nil, \<^verbatim>\<open>sync\<close> writes the condition \<^verbatim>\<open>HostEndpointsDegraded\<close> =
  False with reason \<^verbatim>\<open>HostEndpointsUpdated\<close>; it returns nil if the status write
  succeeds, and emits the warning and returns the error of the status write if it fails.
  Nothing else is done after the actions of the reconcile.
\<close>

theorem sync_returns_reconcile_error_or_status_error:
  "(syncHostEndpoints c = (Inl (Returned err), log) \<longrightarrow>
      sync c =
        (Inl (Returned err),
         log @
         UpdateStatus \<lparr>Type = ''HostEndpointsDegraded'', Status = ConditionTrue,
                       Reason = ''ErrorUpdatingHostEndpoints'', Message = ErrorText err\<rparr> #
         (case operatorClient_UpdateStatus c
                 \<lparr>Type = ''HostEndpointsDegraded'', Status = ConditionTrue,
                  Reason = ''ErrorUpdatingHostEndpoints'', Message = ErrorText err\<rparr> of
            None \<Rightarrow> []
          | Some updateErr \<Rightarrow>
              [Warning ''HostEndpointsErrorUpdatingStatus'' (ErrorText updateErr)]))) \<and>
   (syncHostEndpoints c = (Inr (), log) \<longrightarrow>
      sync c =
        (case operatorClient_UpdateStatus c
                \<lparr>Type = ''HostEndpointsDegraded'', Status = ConditionFalse,
                 Reason = ''HostEndpointsUpdated'', Message = []\<rparr> of
           None \<Rightarrow>
             (Inr (),
              log @ [UpdateStatus \<lparr>Type = ''HostEndpointsDegraded'', Status = ConditionFalse,
                                  Reason = ''HostEndpointsUpdated'', Message = []\<rparr>])
         | Some updateErr \<Rightarrow>
             (Inl (Returned updateErr),
              log @ [UpdateStatus \<lparr>Type = ''HostEndpointsDegraded'', Status = ConditionFalse,
                                  Reason = ''HostEndpointsUpdated'', Message = []\<rparr>,
                     Warning ''HostEndpointsErrorUpdatingStatus'' (ErrorText updateErr)])))"
  by (simp add: sync_def Let_def split: option.splits)

text \<open>
  The witness: a reconcile that fails on the read of the published object, with a status
  write that fails too; the reconcile of the synced cluster, with a status write that
  succeeds; and the same reconcile with a status write that fails.
\<close>

theorem sync_returns_reconcile_error_or_status_error_witness:
  "sync (example_status_failing_controller\<lparr>endpointsLister_Get := Inl example_not_found\<rparr>)
     = (Inl (Returned example_not_found),
        [UpdateStatus \<lparr>Type = ''HostEndpointsDegraded'', Status = ConditionTrue,
                       Reason = ''ErrorUpdatingHostEndpoints'',
                       Message = ''endpoints host-etcd not found''\<rparr>,
         Warning ''HostEndpointsErrorUpdatingStatus'' ''the object has been modified''])
   \<and> sync example_synced_controller
     = (Inr (),
        [UpdateStatus \<lparr>Type = ''HostEndpointsDegraded'', Status = ConditionFalse,
                       Reason = ''HostEndpointsUpdated'', Message = []\<rparr>])
   \<and> sync example_status_failing_controller
     = (Inl (Returned example_status_error),
        [UpdateStatus \<lparr>Type = ''HostEndpointsDegraded'', Status = ConditionFalse,
                       Reason = ''HostEndpointsUpdated'', Message = []\<rparr>,
         Warning ''HostEndpointsErrorUpdatingStatus'' ''the object has been modified''])"
proof -
  let ?c = "example_status_failing_controller\<lparr>endpointsLister_Get := Inl example_not_found\<rparr>"
  have "syncHostEndpoints ?c = (Inl (Returned example_not_found), [])"
    by (simp add: syncHostEndpoints_def syncHostEndpoints_required_def)
  with sync_returns_reconcile_error_or_status_error [of ?c example_not_found "[]"]
  have 1: "sync ?c = (Inl (Returned example_not_found),
        [UpdateStatus \<lparr>Type = ''HostEndpointsDegraded'', Status = ConditionTrue,
                       Reason = ''ErrorUpdatingHostEndpoints'',
                       Message = ''endpoints host-etcd not found''\<rparr>,
         Warning ''HostEndpointsErrorUpdatingStatus'' ''the object has been modified''])"
    by (simp add: example_status_failing_controller_def example_status_error_def
        example_not_found_def)
  have "operatorClient_UpdateStatus example_synced_controller
          \<lparr>Type = ''HostEndpointsDegraded'', Status = ConditionFalse,
           Reason = ''HostEndpointsUpdated'', Message = []\<rparr> = None"
    by (simp add: example_synced_controller_def example_controller_def)
  with sync_returns_reconcile_error_or_status_error [of example_synced_controller _ "[]"] example_synced_reconcile
  have 2: "sync example_synced_controller
     = (Inr (),
        [UpdateStatus \<lparr>Type = ''HostEndpointsDegraded'', Status = ConditionFalse,
                       Reason = ''HostEndpointsUpdated'', Message = []\<rparr>])"
    by simp
  have "operatorClient_UpdateStatus example_status_failing_controller
          \<lparr>Type = ''HostEndpointsDegraded'', Status = ConditionFalse,
           Reason = ''HostEndpointsUpdated'', Message = []\<rparr> = Some example_status_error"
    by (simp add: example_status_failing_controller_def)
  with sync_returns_reconcile_error_or_status_error [of example_status_failing_controller _ "[]"] example_status_failing_reconcile
  have 3: "sync example_status_failing_controller
     = (Inl (Returned example_status_error),
        [UpdateStatus \<lparr>Type = ''HostEndpointsDegraded'', Status = ConditionFalse,
                       Reason = ''HostEndpointsUpdated'', Message = []\<rparr>,
         Warning ''HostEndpointsErrorUpdatingStatus'' ''the object has been modified''])"
    by (simp add: example_status_error_def)
  from 1 2 3 show ?thesis by simp
qed

text \<open>
  C8 as stated fails when the reconcile of the synced cluster returns nil and the status
  write fails: \<^verbatim>\<open>sync\<close> returns the error of the status write, not the nil of the
  reconcile.
\<close>

theorem sync_status_error_replaces_nil:
  "fst (syncHostEndpoints example_status_failing_controller) = Inr ()
   \<and> fst (sync example_status_failing_controller) = Inl (Returned example_status_error)"
  by (simp add: sync_def example_status_failing_reconcile)
     (simp add: example_status_failing_controller_def)

subsection \<open>The desired state\<close>

lemma syncHostEndpoints_nodes_fails:
  assumes "node \<in> set nodes"
    and "case GetPreferredInternalIPAddressForNodeName c network node of
           Inl err \<Rightarrow> True
         | Inr ip \<Rightarrow> ip = [] \<or> (\<exists>err. getEtcdDNSName c discoveryDomain ip = Inl err)"
  shows "\<exists>e. syncHostEndpoints_nodes c discoveryDomain network nodes acc = Inl e"
  using assms
proof (induction nodes arbitrary: acc)
  case Nil
  then show ?case by simp
next
  case (Cons n ns)
  show ?case
  proof (cases "syncHostEndpoints_nodes c discoveryDomain network [n] acc")
    case (Inl e)
    then show ?thesis by (auto split: sum.splits if_splits)
  next
    case (Inr acc')
    then have "n \<noteq> node" using Cons.prems(2) by (auto split: sum.splits if_splits)
    then have "node \<in> set ns" using Cons.prems(1) by simp
    from Cons.IH[OF this Cons.prems(2)] Inr show ?thesis
      by (auto split: sum.splits if_splits)
  qed
qed

lemma syncHostEndpoints_bootstrap_Nil:
  "syncHostEndpoints_bootstrap existingAddresses endpointAddresses = [] \<longleftrightarrow>
     endpointAddresses = [] \<and> (\<forall>a\<in>set existingAddresses. Hostname a \<noteq> ''etcd-bootstrap'')"
  by (induction existingAddresses) auto

lemma syncHostEndpoints_bootstrap_find:
  "syncHostEndpoints_bootstrap existingAddresses endpointAddresses =
     endpointAddresses @
       (case find (\<lambda>a. Hostname a = ''etcd-bootstrap'') existingAddresses of
          None \<Rightarrow> [] | Some b \<Rightarrow> [b])"
  by (induction existingAddresses) auto

lemma syncHostEndpoints_required_Inr:
  assumes "endpointsLister_Get c = Inr existing"
    and "getEtcdDiscoveryDomain c = Inr discoveryDomain"
    and "networkLister_Get c = Inr network"
    and "nodeLister_List c = Inr nodes"
    and "syncHostEndpoints_nodes c discoveryDomain network nodes [] = Inr memberAddresses"
    and "Subsets existing = firstSubset # rest"
  shows "syncHostEndpoints_required c =
    (if syncHostEndpoints_bootstrap (Addresses firstSubset) memberAddresses = []
     then Inl (Returned (fmt_Errorf ''no etcd member nodes are ready''))
     else Inr \<lparr>ObjectMeta =
        \<lparr>ObjectMeta.Name = ''host-etcd'', Namespace = TargetNamespace c,
         Labels = [],
         Annotations = [(''alpha.installer.openshift.io/dns-suffix'', discoveryDomain)]\<rparr>,
      Subsets =
        [\<lparr>Addresses = syncHostEndpoints_bootstrap (Addresses firstSubset) memberAddresses,
          NotReadyAddresses = [],
          Ports = [\<lparr>EndpointPort.Name = ''etcd'', Port = 2379, Protocol = ''TCP''\<rparr>]\<rparr>]\<rparr>)"
  using assms by (simp add: syncHostEndpoints_required_def hostEndpointsAsset_def)

lemma syncHostEndpoints_required_cases:
  assumes "syncHostEndpoints_required c = Inr required"
  obtains existing discoveryDomain network nodes memberAddresses firstSubset rest where
    "endpointsLister_Get c = Inr existing"
    "getEtcdDiscoveryDomain c = Inr discoveryDomain"
    "networkLister_Get c = Inr network"
    "nodeLister_List c = Inr nodes"
    "syncHostEndpoints_nodes c discoveryDomain network nodes [] = Inr memberAddresses"
    "Subsets existing = firstSubset # rest"
  using assms
  by (auto simp: syncHostEndpoints_required_def Let_def split: sum.splits list.splits if_splits)

text \<open>
  C2, as the code has it. Whenever \<^verbatim>\<open>syncHostEndpoints\<close> computes a desired object, the
  first address of \<^verbatim>\<open>existing.Subsets[0]\<close> whose hostname is exactly \<^verbatim>\<open>etcd-bootstrap\<close> is
  in the desired address list, unchanged and in the last place, whatever the member nodes
  are.
\<close>

theorem first_bootstrap_entry_kept:
  assumes "syncHostEndpoints_required c = Inr required"
    and "endpointsLister_Get c = Inr existing"
    and "Subsets existing = firstSubset # rest"
    and "find (\<lambda>a. Hostname a = ''etcd-bootstrap'') (Addresses firstSubset) = Some b"
  shows "b \<in> set (Addresses (Subsets required ! 0))
       \<and> last (Addresses (Subsets required ! 0)) = b"
proof -
  from assms(1) obtain existing' discoveryDomain network nodes memberAddresses firstSubset' rest' where
    h: "endpointsLister_Get c = Inr existing'"
    "getEtcdDiscoveryDomain c = Inr discoveryDomain"
    "networkLister_Get c = Inr network"
    "nodeLister_List c = Inr nodes"
    "syncHostEndpoints_nodes c discoveryDomain network nodes [] = Inr memberAddresses"
    "Subsets existing' = firstSubset' # rest'"
    by (rule syncHostEndpoints_required_cases)
  from h(1) assms(2) have e: "existing' = existing" by simp
  with h(6) assms(3) have s: "firstSubset' = firstSubset" by simp
  from syncHostEndpoints_required_Inr[OF h] assms(1,4) show ?thesis
    by (auto simp: s syncHostEndpoints_bootstrap_find split: if_splits)
qed



theorem first_bootstrap_entry_kept_witness:
  "example_bootstrap \<in> set (Addresses (Subsets example_required ! 0))
   \<and> last (Addresses (Subsets example_required ! 0)) = example_bootstrap"
proof -
  have 1: "endpointsLister_Get example_controller = Inr example_existing"
    by (simp add: example_controller_def)
  have 2: "Subsets example_existing =
             \<lparr>Addresses = [example_bootstrap], NotReadyAddresses = [],
              Ports = [\<lparr>EndpointPort.Name = ''etcd'', Port = 2379, Protocol = ''TCP''\<rparr>]\<rparr> # []"
    by (simp add: example_existing_def)
  have 3: "find (\<lambda>a. Hostname a = ''etcd-bootstrap'')
             (Addresses \<lparr>Addresses = [example_bootstrap], NotReadyAddresses = [],
                Ports = [\<lparr>EndpointPort.Name = ''etcd'', Port = 2379, Protocol = ''TCP''\<rparr>]\<rparr>)
           = Some example_bootstrap"
    by (simp add: example_bootstrap_def)
  from first_bootstrap_entry_kept [OF example_required 1 2 3] show ?thesis .
qed

text \<open>
  C2 as stated fails on a published object with two entries of hostname
  \<^verbatim>\<open>etcd-bootstrap\<close>: the loop breaks after the first, and the second is not in the
  desired address list.
\<close>

theorem second_bootstrap_entry_dropped:
  "endpointsLister_Get example_two_bootstraps_controller = Inr example_two_bootstraps
   \<and> example_other_bootstrap \<in> set (Addresses (Subsets example_two_bootstraps ! 0))
   \<and> Hostname example_other_bootstrap = ''etcd-bootstrap''
   \<and> syncHostEndpoints_required example_two_bootstraps_controller = Inr example_required
   \<and> example_other_bootstrap \<notin> set (Addresses (Subsets example_required ! 0))"
  by (simp add: syncHostEndpoints_required_def hostEndpointsAsset_def example_defs resolver_defs
      example_two_bootstraps_controller_def example_two_bootstraps_def
      example_other_bootstrap_def)

text \<open>
  C5, as the code has it. The address list that is tested for emptiness is the list of
  member addresses followed by the bootstrap entry that was kept. When there is no member
  address and \<^verbatim>\<open>existing.Subsets[0]\<close> has no \<^verbatim>\<open>etcd-bootstrap\<close> entry, the reconcile fails
  with "no etcd member nodes are ready" and does nothing. When there is a member address
  or a bootstrap entry, the desired object is built and handed to \<^verbatim>\<open>applyEndpoints\<close>.
\<close>

theorem no_addresses_no_write:
  assumes "endpointsLister_Get c = Inr existing"
    and "getEtcdDiscoveryDomain c = Inr discoveryDomain"
    and "networkLister_Get c = Inr network"
    and "nodeLister_List c = Inr nodes"
    and "syncHostEndpoints_nodes c discoveryDomain network nodes [] = Inr memberAddresses"
    and "Subsets existing = firstSubset # rest"
  shows "(memberAddresses = [] \<and> (\<forall>a\<in>set (Addresses firstSubset). Hostname a \<noteq> ''etcd-bootstrap'')
           \<longrightarrow> syncHostEndpoints c =
                 (Inl (Returned (fmt_Errorf ''no etcd member nodes are ready'')), []))
       \<and> (memberAddresses \<noteq> [] \<or> (\<exists>a\<in>set (Addresses firstSubset). Hostname a = ''etcd-bootstrap'')
           \<longrightarrow> (\<exists>required. syncHostEndpoints_required c = Inr required
                  \<and> Addresses (Subsets required ! 0) =
                      syncHostEndpoints_bootstrap (Addresses firstSubset) memberAddresses
                  \<and> syncHostEndpoints c = applyEndpoints c required))"
  using syncHostEndpoints_required_Inr [OF assms] syncHostEndpoints_bootstrap_Nil [of "Addresses firstSubset" memberAddresses]
  by (auto simp: syncHostEndpoints_def)


theorem no_addresses_no_write_witness:
  "syncHostEndpoints example_no_address_controller =
     (Inl (Returned (fmt_Errorf ''no etcd member nodes are ready'')), [])
   \<and> syncHostEndpoints_required example_controller = Inr example_required
   \<and> syncHostEndpoints example_controller = applyEndpoints example_controller example_required"
proof -
  have 1: "endpointsLister_Get example_no_address_controller = Inr example_no_address"
    and 2: "getEtcdDiscoveryDomain example_no_address_controller = Inr ''example.com''"
    and 3: "networkLister_Get example_no_address_controller = Inr ()"
    and 4: "nodeLister_List example_no_address_controller = Inr []"
    and 5: "syncHostEndpoints_nodes example_no_address_controller ''example.com'' () [] [] = Inr []"
    and 6: "Subsets example_no_address =
             \<lparr>Addresses = [], NotReadyAddresses = [],
              Ports = [\<lparr>EndpointPort.Name = ''etcd'', Port = 2379, Protocol = ''TCP''\<rparr>]\<rparr> # []"
    by (simp_all add: example_defs resolver_defs example_no_address_controller_def
        example_no_address_def)
  from no_addresses_no_write [OF 1 2 3 4 5 6]
  have a: "syncHostEndpoints example_no_address_controller =
     (Inl (Returned (fmt_Errorf ''no etcd member nodes are ready'')), [])"
    by simp
  have 1: "endpointsLister_Get example_controller = Inr example_existing"
    and 2: "networkLister_Get example_controller = Inr ()"
    and 3: "nodeLister_List example_controller = Inr example_nodes"
    and 4: "Subsets example_existing =
             \<lparr>Addresses = [example_bootstrap], NotReadyAddresses = [],
              Ports = [\<lparr>EndpointPort.Name = ''etcd'', Port = 2379, Protocol = ''TCP''\<rparr>]\<rparr> # []"
    by (simp_all add: example_controller_def example_existing_def)
  from no_addresses_no_write
    [OF 1 example_discoveryDomain 2 3 example_member_addresses 4] example_required
  have "syncHostEndpoints example_controller = applyEndpoints example_controller example_required"
    by auto
  with a example_required show ?thesis by simp
qed

text \<open>
  C5 as stated fails with no member node and a bootstrap entry in the published object:
  the reconcile does not fail, it updates the published object (the annotation is new).
\<close>

theorem bootstrap_only_is_written:
  "syncHostEndpoints_nodes example_no_nodes_controller ''example.com'' () [] [] = Inr []
   \<and> syncHostEndpoints example_no_nodes_controller =
       (Inr (),
        [Update example_bootstrap_only,
         Warning ''EndpointsUpdated''
           ''Updated endpoints/host-etcd -n openshift-etcd because it changed: patch''])"
  by (simp add: syncHostEndpoints_def syncHostEndpoints_required_def hostEndpointsAsset_def
      applyEndpoints_def EnsureObjectMeta_def SetStringIfSet_def
      example_defs resolver_defs equal_defs
      example_no_nodes_controller_def example_bootstrap_only_def)

text \<open>
  C3. Every failure of the builder stage ends \<^verbatim>\<open>syncHostEndpoints\<close> with an error and an
  empty action log, so before \<^verbatim>\<open>applyEndpoints\<close>: a failed read of the existing object, a
  failed read of the infrastructure or a missing discovery domain, a failed read of the
  network configuration, a failed node list, a member node without internal IP or whose
  DNS name cannot be resolved, and an empty computed address list.
\<close>

theorem builder_failure_writes_nothing:
  "(endpointsLister_Get c = Inl err \<longrightarrow>
      syncHostEndpoints c = (Inl (Returned err), []))
 \<and> (endpointsLister_Get c = Inr existing \<and> infrastructureLister_Get c = Inl err \<longrightarrow>
      syncHostEndpoints c =
        (Inl (Returned (fmt_Errorf
           (''unable to determine etcd discovery domain: '' @ ErrorText err))), []))
 \<and> (endpointsLister_Get c = Inr existing \<and> infrastructureLister_Get c = Inr infrastructure
      \<and> EtcdDiscoveryDomain infrastructure = [] \<longrightarrow>
      syncHostEndpoints c =
        (Inl (Returned (fmt_Errorf
           (''unable to determine etcd discovery domain: '' @
            ''infrastructures.config.openshit.io/cluster missing .status.etcdDiscoveryDomain''))),
         []))
 \<and> (endpointsLister_Get c = Inr existing \<and> getEtcdDiscoveryDomain c = Inr discoveryDomain
      \<and> networkLister_Get c = Inl err \<longrightarrow>
      syncHostEndpoints c = (Inl (Returned err), []))
 \<and> (endpointsLister_Get c = Inr existing \<and> getEtcdDiscoveryDomain c = Inr discoveryDomain
      \<and> networkLister_Get c = Inr network \<and> nodeLister_List c = Inl err \<longrightarrow>
      syncHostEndpoints c =
        (Inl (Returned (fmt_Errorf
           (''unable to list expected etcd member nodes: '' @ ErrorText err))), []))
 \<and> (endpointsLister_Get c = Inr existing \<and> getEtcdDiscoveryDomain c = Inr discoveryDomain
      \<and> networkLister_Get c = Inr network \<and> nodeLister_List c = Inr nodes
      \<and> node \<in> set nodes
      \<and> (GetPreferredInternalIPAddressForNodeName c network node = Inl err
         \<or> GetPreferredInternalIPAddressForNodeName c network node = Inr []
         \<or> GetPreferredInternalIPAddressForNodeName c network node = Inr nodeInternalIP
            \<and> getEtcdDNSName c discoveryDomain nodeInternalIP = Inl err) \<longrightarrow>
      (\<exists>e. syncHostEndpoints_nodes c discoveryDomain network nodes [] = Inl e
          \<and> syncHostEndpoints c = (Inl (Returned e), [])))
 \<and> (endpointsLister_Get c = Inr existing \<and> getEtcdDiscoveryDomain c = Inr discoveryDomain
      \<and> networkLister_Get c = Inr network \<and> nodeLister_List c = Inr nodes
      \<and> syncHostEndpoints_nodes c discoveryDomain network nodes [] = Inr memberAddresses
      \<and> Subsets existing = firstSubset # rest
      \<and> syncHostEndpoints_bootstrap (Addresses firstSubset) memberAddresses = [] \<longrightarrow>
      syncHostEndpoints c =
        (Inl (Returned (fmt_Errorf ''no etcd member nodes are ready'')), []))"
proof (intro conjI impI)
  assume "endpointsLister_Get c = Inl err"
  then show "syncHostEndpoints c = (Inl (Returned err), [])"
    by (simp add: syncHostEndpoints_def syncHostEndpoints_required_def)
next
  assume "endpointsLister_Get c = Inr existing \<and> infrastructureLister_Get c = Inl err"
  then show "syncHostEndpoints c =
        (Inl (Returned (fmt_Errorf
           (''unable to determine etcd discovery domain: '' @ ErrorText err))), [])"
    by (simp add: syncHostEndpoints_def syncHostEndpoints_required_def getEtcdDiscoveryDomain_def)
next
  assume "endpointsLister_Get c = Inr existing \<and> infrastructureLister_Get c = Inr infrastructure
      \<and> EtcdDiscoveryDomain infrastructure = []"
  then show "syncHostEndpoints c =
        (Inl (Returned (fmt_Errorf
           (''unable to determine etcd discovery domain: '' @
            ''infrastructures.config.openshit.io/cluster missing .status.etcdDiscoveryDomain''))),
         [])"
    by (simp add: syncHostEndpoints_def syncHostEndpoints_required_def getEtcdDiscoveryDomain_def
        fmt_Errorf_def)
next
  assume "endpointsLister_Get c = Inr existing \<and> getEtcdDiscoveryDomain c = Inr discoveryDomain
      \<and> networkLister_Get c = Inl err"
  then show "syncHostEndpoints c = (Inl (Returned err), [])"
    by (simp add: syncHostEndpoints_def syncHostEndpoints_required_def)
next
  assume "endpointsLister_Get c = Inr existing \<and> getEtcdDiscoveryDomain c = Inr discoveryDomain
      \<and> networkLister_Get c = Inr network \<and> nodeLister_List c = Inl err"
  then show "syncHostEndpoints c =
        (Inl (Returned (fmt_Errorf
           (''unable to list expected etcd member nodes: '' @ ErrorText err))), [])"
    by (simp add: syncHostEndpoints_def syncHostEndpoints_required_def)
next
  assume a: "endpointsLister_Get c = Inr existing \<and> getEtcdDiscoveryDomain c = Inr discoveryDomain
      \<and> networkLister_Get c = Inr network \<and> nodeLister_List c = Inr nodes
      \<and> node \<in> set nodes
      \<and> (GetPreferredInternalIPAddressForNodeName c network node = Inl err
         \<or> GetPreferredInternalIPAddressForNodeName c network node = Inr []
         \<or> GetPreferredInternalIPAddressForNodeName c network node = Inr nodeInternalIP
            \<and> getEtcdDNSName c discoveryDomain nodeInternalIP = Inl err)"
  then have f: "case GetPreferredInternalIPAddressForNodeName c network node of
           Inl err \<Rightarrow> True
         | Inr ip \<Rightarrow> ip = [] \<or> (\<exists>err. getEtcdDNSName c discoveryDomain ip = Inl err)"
    by auto
  from a have "node \<in> set nodes" by simp
  from syncHostEndpoints_nodes_fails [OF this f]
  obtain e where "syncHostEndpoints_nodes c discoveryDomain network nodes [] = Inl e"
    by blast
  with a show "\<exists>e. syncHostEndpoints_nodes c discoveryDomain network nodes [] = Inl e
          \<and> syncHostEndpoints c = (Inl (Returned e), [])"
    by (simp add: syncHostEndpoints_def syncHostEndpoints_required_def)
next
  assume "endpointsLister_Get c = Inr existing \<and> getEtcdDiscoveryDomain c = Inr discoveryDomain
      \<and> networkLister_Get c = Inr network \<and> nodeLister_List c = Inr nodes
      \<and> syncHostEndpoints_nodes c discoveryDomain network nodes [] = Inr memberAddresses
      \<and> Subsets existing = firstSubset # rest
      \<and> syncHostEndpoints_bootstrap (Addresses firstSubset) memberAddresses = []"
  then show "syncHostEndpoints c =
        (Inl (Returned (fmt_Errorf ''no etcd member nodes are ready'')), [])"
    by (simp add: syncHostEndpoints_def syncHostEndpoints_required_def hostEndpointsAsset_def)
qed


theorem builder_failure_writes_nothing_witness:
  "syncHostEndpoints (example_controller\<lparr>endpointsLister_Get := Inl example_not_found\<rparr>)
     = (Inl (Returned example_not_found), [])
   \<and> syncHostEndpoints
       (example_controller\<lparr>infrastructureLister_Get := Inl example_lookup_error\<rparr>)
     = (Inl (Returned (fmt_Errorf
          (''unable to determine etcd discovery domain: '' @ ErrorText example_lookup_error))),
        [])
   \<and> syncHostEndpoints
       (example_controller
          \<lparr>infrastructureLister_Get := Inr \<lparr>EtcdDiscoveryDomain = []\<rparr>\<rparr>)
     = (Inl (Returned (fmt_Errorf
          (''unable to determine etcd discovery domain: '' @
           ''infrastructures.config.openshit.io/cluster missing .status.etcdDiscoveryDomain''))),
        [])
   \<and> syncHostEndpoints (example_controller\<lparr>networkLister_Get := Inl example_lookup_error\<rparr>)
     = (Inl (Returned example_lookup_error), [])
   \<and> syncHostEndpoints (example_controller\<lparr>nodeLister_List := Inl example_lookup_error\<rparr>)
     = (Inl (Returned (fmt_Errorf
          (''unable to list expected etcd member nodes: '' @ ErrorText example_lookup_error))),
        [])
   \<and> snd (syncHostEndpoints
            (example_controller\<lparr>net_LookupHost := (\<lambda>host. Inl example_lookup_error)\<rparr>)) = []
   \<and> syncHostEndpoints example_no_address_controller
     = (Inl (Returned (fmt_Errorf ''no etcd member nodes are ready'')), [])"
proof -
  let ?c1 = "example_controller\<lparr>endpointsLister_Get := Inl example_not_found\<rparr>"
  let ?c2 = "example_controller\<lparr>infrastructureLister_Get := Inr \<lparr>EtcdDiscoveryDomain = []\<rparr>\<rparr>"
  let ?c3 = "example_controller\<lparr>networkLister_Get := Inl example_lookup_error\<rparr>"
  let ?c4 = "example_controller\<lparr>nodeLister_List := Inl example_lookup_error\<rparr>"
  let ?c5 = "example_controller\<lparr>net_LookupHost := (\<lambda>host. Inl example_lookup_error)\<rparr>"
  let ?c7 = "example_controller\<lparr>infrastructureLister_Get := Inl example_lookup_error\<rparr>"
  have 1: "syncHostEndpoints ?c1 = (Inl (Returned example_not_found), [])"
    using builder_failure_writes_nothing [where c = ?c1 and err = example_not_found]
    by simp
  have 7: "syncHostEndpoints ?c7 = (Inl (Returned (fmt_Errorf
          (''unable to determine etcd discovery domain: '' @ ErrorText example_lookup_error))),
        [])"
    using builder_failure_writes_nothing
      [where c = ?c7 and existing = example_existing and err = example_lookup_error]
    by (simp add: example_controller_def)
  have 2: "syncHostEndpoints ?c2 = (Inl (Returned (fmt_Errorf
          (''unable to determine etcd discovery domain: '' @
           ''infrastructures.config.openshit.io/cluster missing .status.etcdDiscoveryDomain''))),
        [])"
    using builder_failure_writes_nothing
      [where c = ?c2 and existing = example_existing
         and infrastructure = "\<lparr>EtcdDiscoveryDomain = []\<rparr>"]
    by (simp add: example_controller_def)
  have 3: "syncHostEndpoints ?c3 = (Inl (Returned example_lookup_error), [])"
    using builder_failure_writes_nothing
      [where c = ?c3 and existing = example_existing and discoveryDomain = "''example.com''"
         and err = example_lookup_error]
    by (simp add: example_controller_def getEtcdDiscoveryDomain_def)
  have 4: "syncHostEndpoints ?c4 = (Inl (Returned (fmt_Errorf
          (''unable to list expected etcd member nodes: '' @ ErrorText example_lookup_error))),
        [])"
    using builder_failure_writes_nothing
      [where c = ?c4 and existing = example_existing and discoveryDomain = "''example.com''"
         and network = "()" and err = example_lookup_error]
    by (simp add: example_controller_def getEtcdDiscoveryDomain_def)
  have "getEtcdDNSName ?c5 ''example.com'' ''10.0.0.1'' =
          Inl (fmt_Errorf (''could not resolve member '' @ fmt_q ''a.example.com.''))"
    by (simp add: example_controller_def resolver_defs)
  then have 5: "snd (syncHostEndpoints ?c5) = []"
    using builder_failure_writes_nothing
      [where c = ?c5 and existing = example_existing and discoveryDomain = "''example.com''"
         and network = "()" and nodes = example_nodes and node = "\<lparr>Node.Name = ''master-0''\<rparr>"
         and nodeInternalIP = "''10.0.0.1''"
         and err = "fmt_Errorf (''could not resolve member '' @ fmt_q ''a.example.com.'')"]
    by (auto simp: example_controller_def example_nodes_def getEtcdDiscoveryDomain_def)
  have 6: "syncHostEndpoints example_no_address_controller
     = (Inl (Returned (fmt_Errorf ''no etcd member nodes are ready'')), [])"
    using builder_failure_writes_nothing
      [where c = example_no_address_controller and existing = example_no_address
         and discoveryDomain = "''example.com''" and network = "()" and nodes = "[]"
         and memberAddresses = "[]"
         and firstSubset = "\<lparr>Addresses = [], NotReadyAddresses = [],
              Ports = [\<lparr>EndpointPort.Name = ''etcd'', Port = 2379, Protocol = ''TCP''\<rparr>]\<rparr>"
         and rest = "[]"]
    by (simp add: example_defs getEtcdDiscoveryDomain_def example_no_address_controller_def
        example_no_address_def)
  from 1 7 2 3 4 5 6 show ?thesis by simp
qed

subsection \<open>The DNS identity resolver\<close>

text \<open>
  C6. The SRV query for \<^verbatim>\<open>_etcd-server-ssl._tcp.example.com\<close> returns the targets
  \<^verbatim>\<open>a.example.com\<close> and \<^verbatim>\<open>b.example.com\<close> (with or without the trailing dot, in either
  order), which resolve to 10.0.0.1 and 10.0.0.2. For a node whose internal IP is
  10.0.0.1 the resolver returns \<^verbatim>\<open>a.example.com\<close>, and the hostname of the node's
  endpoint record is \<^verbatim>\<open>a\<close>.
\<close>

theorem dns_matching:
  assumes "net_LookupSRV c ''etcd-server-ssl'' ''tcp'' ''example.com'' = Inr srvs"
    and "srvs = [ta, tb] \<or> srvs = [tb, ta]"
    and "ta = ''a.example.com'' \<or> ta = ''a.example.com.''"
    and "tb = ''b.example.com'' \<or> tb = ''b.example.com.''"
    and "net_LookupHost c ta = Inr [''10.0.0.1'']"
    and "net_LookupHost c tb = Inr [''10.0.0.2'']"
    and "GetPreferredInternalIPAddressForNodeName c network node = Inr ''10.0.0.1''"
  shows "getEtcdDNSName c ''example.com'' ''10.0.0.1'' = Inr ''a.example.com''
       \<and> syncHostEndpoints_nodes c ''example.com'' network [node] [] =
           Inr [\<lparr>IP = ''10.0.0.1'', Hostname = ''a'', NodeName = Some (Node.Name node)\<rparr>]"
proof -
  have t: "strings_Trim ta ''.'' = ''a.example.com''"
    using assms(3) by (auto simp: strings_Trim_def)
  have "reverseLookup_targets c srvs ''10.0.0.1'' [] = Inr ''a.example.com''"
    using assms(2,5,6) t by auto
  then have d: "getEtcdDNSName c ''example.com'' ''10.0.0.1'' = Inr ''a.example.com''"
    using assms(1) by (simp add: getEtcdDNSName_def reverseLookup_def)
  have "strings_TrimSuffix ''a.example.com'' (''.'' @ ''example.com'') = ''a''"
    by (simp add: strings_TrimSuffix_def strings_HasSuffix_def)
  with d assms(7) show ?thesis by simp
qed

theorem dns_matching_witness:
  "getEtcdDNSName example_controller ''example.com'' ''10.0.0.1'' = Inr ''a.example.com''
   \<and> syncHostEndpoints_nodes example_controller ''example.com'' ()
        [\<lparr>Node.Name = ''master-0''\<rparr>] [] =
       Inr [\<lparr>IP = ''10.0.0.1'', Hostname = ''a'', NodeName = Some ''master-0''\<rparr>]"
proof -
  have 1: "net_LookupSRV example_controller ''etcd-server-ssl'' ''tcp'' ''example.com'' =
             Inr [''a.example.com.'', ''b.example.com.'']"
    and 2: "[''a.example.com.'', ''b.example.com.''] = [''a.example.com.'', ''b.example.com.'']
            \<or> [''a.example.com.'', ''b.example.com.''] = [''b.example.com.'', ''a.example.com.'']"
    and 3: "''a.example.com.'' = ''a.example.com'' \<or> ''a.example.com.'' = ''a.example.com.''"
    and 4: "''b.example.com.'' = ''b.example.com'' \<or> ''b.example.com.'' = ''b.example.com.''"
    and 5: "net_LookupHost example_controller ''a.example.com.'' = Inr [''10.0.0.1'']"
    and 6: "net_LookupHost example_controller ''b.example.com.'' = Inr [''10.0.0.2'']"
    and 7: "GetPreferredInternalIPAddressForNodeName example_controller ()
              \<lparr>Node.Name = ''master-0''\<rparr> = Inr ''10.0.0.1''"
    by (simp_all add: example_controller_def)
  from dns_matching [OF 1 2 3 4 5 6 7] show ?thesis by simp
qed

subsection \<open>Subset equality\<close>

lemma nilNodeNameTie_sym: "nilNodeNameTie a b = nilNodeNameTie b a"
  by (auto simp: nilNodeNameTie_def)

lemma comparator_panics:
  "newEndpointAddressSliceComparator a b = Inl p \<longleftrightarrow>
     p = NilPointerDereference \<and> nilNodeNameTie a b"
  by (cases p)
     (auto simp: newEndpointAddressSliceComparator_def nilNodeNameTie_def split: option.splits)

lemma comparator_key:
  "\<not> nilNodeNameTie a b \<Longrightarrow>
     newEndpointAddressSliceComparator a b = Inr (addressKey a < addressKey b)"
  by (auto simp: newEndpointAddressSliceComparator_def nilNodeNameTie_def addressKey_def
      split: option.splits)

lemma addressKey_inj: "inj addressKey"
  by (rule injI) (simp add: addressKey_def)

lemma addressKey_between:
  "addressKey v \<le> addressKey u \<Longrightarrow> addressKey u \<le> addressKey x \<Longrightarrow>
   IP x = IP v \<Longrightarrow> Hostname x = Hostname v \<Longrightarrow> IP u = IP x \<and> Hostname u = Hostname x"
  by (auto simp: addressKey_def less_eq_prod_def)


lemma sort_Slice_insert_ok:
  assumes "\<forall>y\<in>set sorted_rev. \<not> nilNodeNameTie x y"
  shows "\<exists>us vs. sorted_rev = us @ vs
           \<and> sort_Slice_insert newEndpointAddressSliceComparator x sorted_rev = Inr (us @ x # vs)
           \<and> (\<forall>u\<in>set us. addressKey x < addressKey u)
           \<and> (case vs of [] \<Rightarrow> True | v # _ \<Rightarrow> addressKey v \<le> addressKey x)"
  using assms
proof (induction sorted_rev)
  case Nil
  then show ?case by simp
next
  case (Cons y ys)
  then have c: "newEndpointAddressSliceComparator x y = Inr (addressKey x < addressKey y)"
    by (simp add: comparator_key)
  show ?case
  proof (cases "addressKey x < addressKey y")
    case True
    from Cons obtain us vs where
      h: "ys = us @ vs"
         "sort_Slice_insert newEndpointAddressSliceComparator x ys = Inr (us @ x # vs)"
         "\<forall>u\<in>set us. addressKey x < addressKey u"
         "case vs of [] \<Rightarrow> True | v # _ \<Rightarrow> addressKey v \<le> addressKey x"
      by auto
    show ?thesis
      by (rule exI [of _ "y # us"], rule exI [of _ vs]) (use h c True in simp)
  next
    case False
    show ?thesis
      by (rule exI [of _ "[]"], rule exI [of _ "y # ys"]) (use c False in simp)
  qed
qed

lemma sort_Slice_insert_descending:
  assumes "sorted_rev = us @ vs"
    and "\<forall>u\<in>set us. addressKey x < addressKey u"
    and "case vs of [] \<Rightarrow> True | v # _ \<Rightarrow> addressKey v \<le> addressKey x"
    and "descending sorted_rev"
  shows "descending (us @ x # vs)"
proof -
  have "\<forall>v\<in>set vs. addressKey v \<le> addressKey x"
  proof (cases vs)
    case Nil
    then show ?thesis by simp
  next
    case (Cons v vs')
    with assms(1,3,4) show ?thesis by (auto simp: sorted_wrt_append)
  qed
  with assms show ?thesis by (auto simp: sorted_wrt_append intro: less_imp_le)
qed

lemma sort_Slice_insert_tieFree:
  assumes "\<forall>y\<in>set (us @ vs). \<not> nilNodeNameTie x y" and "tieFree (us @ vs)"
  shows "tieFree (us @ x # vs)"
  using assms by (auto simp: tieFree_def sorted_wrt_append nilNodeNameTie_sym)

lemma sort_Slice_insert_tie:
  assumes "\<exists>y\<in>set sorted_rev. nilNodeNameTie x y"
    and "descending sorted_rev" and "tieFree sorted_rev"
  shows "sort_Slice_insert newEndpointAddressSliceComparator x sorted_rev =
           Inl NilPointerDereference"
  using assms
proof (induction sorted_rev)
  case Nil
  then show ?case by simp
next
  case (Cons y ys)
  show ?case
  proof (cases "nilNodeNameTie x y")
    case True
    then have "newEndpointAddressSliceComparator x y = Inl NilPointerDereference"
      by (simp add: comparator_panics)
    then show ?thesis by simp
  next
    case False
    then have c: "newEndpointAddressSliceComparator x y = Inr (addressKey x < addressKey y)"
      by (simp add: comparator_key)
    from False Cons.prems(1) obtain z where z: "z \<in> set ys" "nilNodeNameTie x z" by auto
    have d: "descending ys" and t: "tieFree ys"
      using Cons.prems(2,3) by (simp_all add: tieFree_def)
    have zy: "addressKey z \<le> addressKey y" and nt: "\<not> nilNodeNameTie y z"
      using Cons.prems(2,3) z(1) by (auto simp: tieFree_def)
    have "addressKey x < addressKey y"
    proof (rule ccontr)
      assume "\<not> addressKey x < addressKey y"
      then have "addressKey y \<le> addressKey x" by simp
      with zy z(2) have "IP y = IP x \<and> Hostname y = Hostname x"
        using addressKey_between [of z y x] by (simp add: nilNodeNameTie_def)
      with False z(2) nt show False by (auto simp: nilNodeNameTie_def)
    qed
    moreover have "\<exists>y\<in>set ys. nilNodeNameTie x y" using z by blast
    note Cons.IH [OF this d t]
    ultimately show ?thesis using c by simp
  qed
qed

lemma sort_Slice_from_ok:
  assumes "tieFree xs" and "\<forall>x\<in>set xs. \<forall>y\<in>set sorted_rev. \<not> nilNodeNameTie x y"
    and "descending sorted_rev"
  shows "\<exists>zs. sort_Slice_from newEndpointAddressSliceComparator xs sorted_rev = Inr zs
           \<and> mset zs = mset xs + mset sorted_rev \<and> sorted (map addressKey zs)"
  using assms
proof (induction xs arbitrary: sorted_rev)
  case Nil
  then show ?case
    by (simp add: sorted_map sorted_wrt_rev)
next
  case (Cons x xs)
  from Cons.prems(2) have "\<forall>y\<in>set sorted_rev. \<not> nilNodeNameTie x y" by simp
  from sort_Slice_insert_ok [OF this] obtain us vs where
    h: "sorted_rev = us @ vs"
       "sort_Slice_insert newEndpointAddressSliceComparator x sorted_rev = Inr (us @ x # vs)"
       "\<forall>u\<in>set us. addressKey x < addressKey u"
       "case vs of [] \<Rightarrow> True | v # _ \<Rightarrow> addressKey v \<le> addressKey x"
    by blast
  have d: "descending (us @ x # vs)"
    using sort_Slice_insert_descending [OF h(1,3,4) Cons.prems(3)] .
  have t: "tieFree xs" using Cons.prems(1) by (simp add: tieFree_def)
  have n: "\<forall>x'\<in>set xs. \<forall>y\<in>set (us @ x # vs). \<not> nilNodeNameTie x' y"
    using Cons.prems(1,2) h(1) by (auto simp: tieFree_def nilNodeNameTie_sym)
  from Cons.IH [OF t n d] h(1,2) show ?case by auto
qed

lemma sort_Slice_from_tie:
  assumes "\<not> (tieFree xs \<and> (\<forall>x\<in>set xs. \<forall>y\<in>set sorted_rev. \<not> nilNodeNameTie x y))"
    and "descending sorted_rev" and "tieFree sorted_rev"
  shows "sort_Slice_from newEndpointAddressSliceComparator xs sorted_rev =
           Inl NilPointerDereference"
  using assms
proof (induction xs arbitrary: sorted_rev)
  case Nil
  then show ?case by (simp add: tieFree_def)
next
  case (Cons x xs)
  show ?case
  proof (cases "\<exists>y\<in>set sorted_rev. nilNodeNameTie x y")
    case True
    from sort_Slice_insert_tie [OF True Cons.prems(2,3)] show ?thesis by simp
  next
    case False
    then have f: "\<forall>y\<in>set sorted_rev. \<not> nilNodeNameTie x y" by simp
    from sort_Slice_insert_ok [OF f] obtain us vs where
      h: "sorted_rev = us @ vs"
         "sort_Slice_insert newEndpointAddressSliceComparator x sorted_rev = Inr (us @ x # vs)"
         "\<forall>u\<in>set us. addressKey x < addressKey u"
         "case vs of [] \<Rightarrow> True | v # _ \<Rightarrow> addressKey v \<le> addressKey x"
      by blast
    have d: "descending (us @ x # vs)"
      using sort_Slice_insert_descending [OF h(1,3,4) Cons.prems(2)] .
    have t: "tieFree (us @ x # vs)"
      using sort_Slice_insert_tieFree [of us vs x] f Cons.prems(3) h(1) by simp
    have n: "\<not> (tieFree xs \<and> (\<forall>x'\<in>set xs. \<forall>y\<in>set (us @ x # vs). \<not> nilNodeNameTie x' y))"
      using Cons.prems(1) f h(1) by (auto simp: tieFree_def nilNodeNameTie_sym)
    from Cons.IH [OF n d t] h(2) show ?thesis by simp
  qed
qed

lemma sort_Slice_ok:
  assumes "tieFree xs"
  shows "\<exists>zs. sort_Slice newEndpointAddressSliceComparator xs = Inr zs
           \<and> mset zs = mset xs \<and> sorted (map addressKey zs)"
  using sort_Slice_from_ok [OF assms, of "[]"] by (simp add: sort_Slice_def)

lemma sort_Slice_tie:
  assumes "\<not> tieFree xs"
  shows "sort_Slice newEndpointAddressSliceComparator xs = Inl NilPointerDereference"
  using sort_Slice_from_tie [of xs "[]"] assms by (simp add: sort_Slice_def tieFree_def)

lemma sorted_key_unique:
  assumes "mset zs = mset zs'" and "sorted (map addressKey zs)" and "sorted (map addressKey zs')"
  shows "zs = zs'"
proof -
  have "mset (map addressKey zs) = mset (map addressKey zs')"
    using assms(1) by simp
  from properties_for_sort [OF this assms(2)] assms(3)
  have "map addressKey zs' = map addressKey zs"
    by (simp add: sorted_sort_id)
  then show ?thesis
    using addressKey_inj by (simp add: inj_map_eq_map)
qed


lemma tieFree_iff:
  "tieFree xs \<longleftrightarrow>
     (\<forall>a\<in>set xs. \<forall>b\<in>set xs. nilNodeNameTie a b \<longrightarrow> a = b \<and> count (mset xs) a = 1)"
proof (induction xs)
  case Nil
  then show ?case by (simp add: tieFree_def)
next
  case (Cons x xs)
  have s: "tieFree (x # xs) \<longleftrightarrow> (\<forall>y\<in>set xs. \<not> nilNodeNameTie x y) \<and> tieFree xs"
    by (simp add: tieFree_def)
  show ?case
  proof
    assume l: "tieFree (x # xs)"
    with s Cons have
      1: "\<forall>y\<in>set xs. \<not> nilNodeNameTie x y" and
      2: "\<forall>a\<in>set xs. \<forall>b\<in>set xs. nilNodeNameTie a b \<longrightarrow> a = b \<and> count (mset xs) a = 1"
      by auto
    show "\<forall>a\<in>set (x # xs). \<forall>b\<in>set (x # xs).
            nilNodeNameTie a b \<longrightarrow> a = b \<and> count (mset (x # xs)) a = 1"
    proof (intro ballI impI)
      fix a b assume ab: "a \<in> set (x # xs)" "b \<in> set (x # xs)" "nilNodeNameTie a b"
      show "a = b \<and> count (mset (x # xs)) a = 1"
      proof (cases "a = x")
        case True
        with ab 1 have bx: "b = x" by auto
        have "x \<notin> set xs"
        proof
          assume "x \<in> set xs"
          with 1 have "\<not> nilNodeNameTie x x" by simp
          with ab True bx show False by simp
        qed
        then show ?thesis using True bx by (simp add: count_eq_zero_iff)
      next
        case False
        with ab have a: "a \<in> set xs" by simp
        have "b \<noteq> x" using 1 a ab(3) by (auto simp: nilNodeNameTie_sym)
        with ab have "b \<in> set xs" by simp
        with 2 a ab(3) False show ?thesis by auto
      qed
    qed
  next
    assume r: "\<forall>a\<in>set (x # xs). \<forall>b\<in>set (x # xs).
            nilNodeNameTie a b \<longrightarrow> a = b \<and> count (mset (x # xs)) a = 1"
    have 1: "\<forall>y\<in>set xs. \<not> nilNodeNameTie x y"
    proof
      fix y assume y: "y \<in> set xs"
      show "\<not> nilNodeNameTie x y"
      proof
        assume "nilNodeNameTie x y"
        with r y have "x = y \<and> count (mset (x # xs)) x = 1" by simp
        with y show False by (auto simp: count_eq_zero_iff)
      qed
    qed
    have "\<forall>a\<in>set xs. \<forall>b\<in>set xs. nilNodeNameTie a b \<longrightarrow> a = b \<and> count (mset xs) a = 1"
    proof (intro ballI impI)
      fix a b assume ab: "a \<in> set xs" "b \<in> set xs" "nilNodeNameTie a b"
      with r have e: "a = b \<and> count (mset (x # xs)) a = 1" by simp
      have "a \<noteq> x" using 1 ab by (auto simp: nilNodeNameTie_sym)
      with e show "a = b \<and> count (mset xs) a = 1" by auto
    qed
    with 1 s Cons show "tieFree (x # xs)" by simp
  qed
qed

lemma tieFree_mset:
  assumes "mset xs = mset ys"
  shows "tieFree xs = tieFree ys"
proof -
  from assms have "set xs = set ys" by (rule mset_eq_setD)
  with assms show ?thesis by (simp only: tieFree_iff)
qed

lemma tieFree_nth:
  "tieFree xs \<longleftrightarrow>
     (\<forall>i j. i < j \<longrightarrow> j < length xs \<longrightarrow> \<not> nilNodeNameTie (xs ! i) (xs ! j))"
  by (simp add: tieFree_def sorted_wrt_iff_nth_less)

lemma endpointSubsetEqual_tie:
  assumes "\<not> tieFree (Addresses lhs) \<or> \<not> tieFree (Addresses rhs)"
  shows "endpointSubsetEqual lhs rhs =
     (if length (Addresses lhs) = length (Addresses rhs)
         \<and> length (NotReadyAddresses lhs) = length (NotReadyAddresses rhs)
         \<and> length (Ports lhs) = length (Ports rhs)
      then Inl NilPointerDereference else Inr False)"
proof (cases "tieFree (Addresses lhs)")
  case False
  from sort_Slice_tie [OF this] show ?thesis
    by (simp add: endpointSubsetEqual_def)
next
  case True
  from sort_Slice_ok [OF this] obtain zs where
    zs: "sort_Slice newEndpointAddressSliceComparator (Addresses lhs) = Inr zs" by blast
  from True assms have "\<not> tieFree (Addresses rhs)" by simp
  from sort_Slice_tie [OF this] zs show ?thesis
    by (simp add: endpointSubsetEqual_def)
qed

lemma endpointSubsetEqual_tieFree:
  assumes "tieFree (Addresses lhs)" and "tieFree (Addresses rhs)"
  shows "endpointSubsetEqual lhs rhs =
     Inr (mset (Addresses lhs) = mset (Addresses rhs)
          \<and> length (NotReadyAddresses lhs) = length (NotReadyAddresses rhs)
          \<and> length (Ports lhs) = length (Ports rhs))"
proof -
  from sort_Slice_ok [OF assms(1)] obtain zs where
    zs: "sort_Slice newEndpointAddressSliceComparator (Addresses lhs) = Inr zs"
        "mset zs = mset (Addresses lhs)" "sorted (map addressKey zs)" by blast
  from sort_Slice_ok [OF assms(2)] obtain zs' where
    zs': "sort_Slice newEndpointAddressSliceComparator (Addresses rhs) = Inr zs'"
        "mset zs' = mset (Addresses rhs)" "sorted (map addressKey zs')" by blast
  have "zs = zs' \<longleftrightarrow> mset (Addresses lhs) = mset (Addresses rhs)"
    using zs(2,3) zs'(2,3) sorted_key_unique [of zs zs'] by auto
  moreover have "mset (Addresses lhs) = mset (Addresses rhs) \<Longrightarrow>
    length (Addresses lhs) = length (Addresses rhs)"
    by (rule mset_eq_length)
  ultimately show ?thesis using zs(1) zs'(1) by (auto simp: endpointSubsetEqual_def)
qed

lemma endpointSubsetEqual_order_independent:
  assumes "mset (Addresses lhs) = mset (Addresses rhs)"
    and "length (NotReadyAddresses lhs) = length (NotReadyAddresses rhs)"
    and "length (Ports lhs) = length (Ports rhs)"
    and "tieFree (Addresses lhs)"
  shows "endpointSubsetEqual lhs rhs = Inr True"
  using endpointSubsetEqual_tieFree [of lhs rhs] assms tieFree_mset [OF assms(1)] by simp


lemma endpointSubsetEqual_panics:
  "endpointSubsetEqual lhs rhs = Inl p \<longleftrightarrow>
     p = NilPointerDereference
     \<and> length (Addresses lhs) = length (Addresses rhs)
     \<and> length (NotReadyAddresses lhs) = length (NotReadyAddresses rhs)
     \<and> length (Ports lhs) = length (Ports rhs)
     \<and> (\<not> tieFree (Addresses lhs) \<or> \<not> tieFree (Addresses rhs))"
proof (cases "tieFree (Addresses lhs) \<and> tieFree (Addresses rhs)")
  case True
  then show ?thesis by (simp add: endpointSubsetEqual_tieFree)
next
  case False
  then have "\<not> tieFree (Addresses lhs) \<or> \<not> tieFree (Addresses rhs)" by simp
  from endpointSubsetEqual_tie [OF this] False show ?thesis
    by (cases p) simp_all
qed

text \<open>
  C10. The comparator dereferences a nil \<^verbatim>\<open>NodeName\<close> exactly when the two addresses have
  the same IP and the same hostname and one of them has no node name; so it does on two
  bootstrap-style entries with equal IP and hostname. \<^verbatim>\<open>endpointSubsetEqual\<close> panics
  exactly when the three length checks pass and one of the two address lists holds, at
  two different positions, two such addresses; it is defined, as true or false, in every
  other case.
\<close>

theorem comparator_needs_node_names:
  "(newEndpointAddressSliceComparator a b = Inl NilPointerDereference \<longleftrightarrow>
      IP a = IP b \<and> Hostname a = Hostname b \<and> (NodeName a = None \<or> NodeName b = None))
   \<and> (endpointSubsetEqual lhs rhs = Inl NilPointerDereference \<longleftrightarrow>
        length (Addresses lhs) = length (Addresses rhs)
        \<and> length (NotReadyAddresses lhs) = length (NotReadyAddresses rhs)
        \<and> length (Ports lhs) = length (Ports rhs)
        \<and> (\<not> tieFree (Addresses lhs) \<or> \<not> tieFree (Addresses rhs)))
   \<and> (tieFree (Addresses lhs) \<and> tieFree (Addresses rhs) \<longrightarrow>
        (\<exists>equal. endpointSubsetEqual lhs rhs = Inr equal))"
  using comparator_panics [of a b NilPointerDereference]
    endpointSubsetEqual_panics [of lhs rhs NilPointerDereference]
    endpointSubsetEqual_tieFree [of lhs rhs]
  by (simp add: nilNodeNameTie_def)

theorem comparator_needs_node_names_witness:
  "newEndpointAddressSliceComparator example_bootstrap example_bootstrap =
     Inl NilPointerDereference
   \<and> endpointSubsetEqual example_tied_subset example_tied_subset =
       Inl NilPointerDereference
   \<and> (\<exists>equal. endpointSubsetEqual (Subsets example_published ! 0)
                 (Subsets example_required ! 0) = Inr equal)"
proof -
  have t: "\<not> tieFree (Addresses example_tied_subset)"
    by (simp add: tieFree_def nilNodeNameTie_def example_bootstrap_def
        example_tied_subset_def example_tied_member_def)
  have f: "tieFree (Addresses (Subsets example_published ! 0))"
    "tieFree (Addresses (Subsets example_required ! 0))"
    by (simp_all add: tieFree_def nilNodeNameTie_def example_defs)
  from comparator_needs_node_names
    [of example_bootstrap example_bootstrap example_tied_subset example_tied_subset] t
  have 1: "newEndpointAddressSliceComparator example_bootstrap example_bootstrap =
     Inl NilPointerDereference"
    and 2: "endpointSubsetEqual example_tied_subset example_tied_subset =
       Inl NilPointerDereference"
    by (simp_all add: example_bootstrap_def)
  from comparator_needs_node_names
    [of example_bootstrap example_bootstrap "Subsets example_published ! 0"
        "Subsets example_required ! 0"] f
  have "\<exists>equal. endpointSubsetEqual (Subsets example_published ! 0)
                 (Subsets example_required ! 0) = Inr equal"
    by blast
  with 1 2 show ?thesis by simp
qed

text \<open>
  C4 at two subsets that hold the same two addresses in different orders, with equal
  not-ready and port lists: the addresses share IP and hostname and one has no node
  name, and the equality check panics instead of returning true. On address lists free
  of such ties the check does return true, by \<open>endpointSubsetEqual_order_independent\<close>.
\<close>

theorem endpointSubsetEqual_same_addresses_panics:
  "mset (Addresses example_tied_subset) = mset (Addresses example_tied_subset_swapped)
   \<and> NotReadyAddresses example_tied_subset = NotReadyAddresses example_tied_subset_swapped
   \<and> Ports example_tied_subset = Ports example_tied_subset_swapped
   \<and> endpointSubsetEqual example_tied_subset example_tied_subset_swapped =
       Inl NilPointerDereference"
  by (simp add: equal_defs example_bootstrap_def example_tied_member_def
      example_tied_subset_def example_tied_subset_swapped_def)

subsection \<open>Idempotence\<close>

lemma reverseLookup_targets_listers:
  "reverseLookup_targets
     (c\<lparr>endpointsLister_Get := g, endpointsLister_Get_apply := g'\<rparr>) srvs ip selfTarget =
   reverseLookup_targets c srvs ip selfTarget"
  by (induction srvs arbitrary: selfTarget) (simp_all split: sum.splits)

lemma getEtcdDNSName_listers:
  "getEtcdDNSName (c\<lparr>endpointsLister_Get := g, endpointsLister_Get_apply := g'\<rparr>)
     discoveryDomain ip = getEtcdDNSName c discoveryDomain ip"
  by (simp add: getEtcdDNSName_def reverseLookup_def reverseLookup_targets_listers
      split: sum.splits)

lemma getEtcdDiscoveryDomain_listers:
  "getEtcdDiscoveryDomain (c\<lparr>endpointsLister_Get := g, endpointsLister_Get_apply := g'\<rparr>) =
   getEtcdDiscoveryDomain c"
  by (simp add: getEtcdDiscoveryDomain_def)

lemma syncHostEndpoints_nodes_listers:
  "syncHostEndpoints_nodes (c\<lparr>endpointsLister_Get := g, endpointsLister_Get_apply := g'\<rparr>)
     discoveryDomain network nodes acc =
   syncHostEndpoints_nodes c discoveryDomain network nodes acc"
  by (induction nodes arbitrary: acc)
     (simp_all add: getEtcdDNSName_listers split: sum.splits)

lemma syncHostEndpoints_nodes_NodeName:
  assumes "syncHostEndpoints_nodes c discoveryDomain network nodes acc = Inr addresses"
    and "\<forall>a\<in>set acc. NodeName a \<noteq> None"
  shows "\<forall>a\<in>set addresses. NodeName a \<noteq> None"
  using assms
proof (induction nodes arbitrary: acc)
  case Nil
  then show ?case by simp
next
  case (Cons node nodes)
  from Cons.prems(1) obtain nodeInternalIP where
    ip: "GetPreferredInternalIPAddressForNodeName c network node = Inr nodeInternalIP"
    by (cases "GetPreferredInternalIPAddressForNodeName c network node") simp_all
  with Cons.prems(1) have nonempty: "nodeInternalIP \<noteq> []"
    by (cases "nodeInternalIP = []") simp_all
  with Cons.prems(1) ip obtain dnsName where
    dns: "getEtcdDNSName c discoveryDomain nodeInternalIP = Inr dnsName"
    by (cases "getEtcdDNSName c discoveryDomain nodeInternalIP") simp_all
  let ?acc = "acc @ [\<lparr>IP = nodeInternalIP,
      Hostname = strings_TrimSuffix dnsName (''.'' @ discoveryDomain),
      NodeName = Some (Node.Name node)\<rparr>]"
  from Cons.prems(1) ip nonempty dns
  have "syncHostEndpoints_nodes c discoveryDomain network nodes ?acc = Inr addresses"
    by simp
  moreover have "\<forall>a\<in>set ?acc. NodeName a \<noteq> None"
    using Cons.prems(2) by simp
  ultimately show ?case by (rule Cons.IH)
qed

lemma tieFree_NodeName:
  "\<forall>a\<in>set xs. NodeName a \<noteq> None \<Longrightarrow> tieFree xs"
  by (induction xs) (auto simp: tieFree_def nilNodeNameTie_def)

lemma tieFree_bootstrap:
  assumes "\<forall>a\<in>set members. NodeName a \<noteq> None \<and> Hostname a \<noteq> ''etcd-bootstrap''"
  shows "tieFree (syncHostEndpoints_bootstrap existingAddresses members)"
proof (cases "find (\<lambda>a. Hostname a = ''etcd-bootstrap'') existingAddresses")
  case None
  with assms show ?thesis
    by (simp add: syncHostEndpoints_bootstrap_find tieFree_NodeName)
next
  case (Some b)
  then have "Hostname b = ''etcd-bootstrap''" by (auto simp: find_Some_iff)
  with assms have "\<forall>a\<in>set members. \<not> nilNodeNameTie a b"
    by (auto simp: nilNodeNameTie_def)
  moreover have "tieFree members" using assms by (simp add: tieFree_NodeName)
  ultimately show ?thesis
    using Some by (simp add: syncHostEndpoints_bootstrap_find tieFree_def sorted_wrt_append)
qed

lemma find_append_None:
  "find P xs = None \<Longrightarrow> find P (xs @ ys) = find P ys"
  by (induction xs) (auto split: if_splits)

lemma syncHostEndpoints_bootstrap_again:
  assumes "\<forall>a\<in>set members. Hostname a \<noteq> ''etcd-bootstrap''"
  shows "syncHostEndpoints_bootstrap (syncHostEndpoints_bootstrap existingAddresses members)
           members = syncHostEndpoints_bootstrap existingAddresses members"
proof -
  have n: "find (\<lambda>a. Hostname a = ''etcd-bootstrap'') members = None"
    using assms by (simp add: find_None_iff)
  show ?thesis
  proof (cases "find (\<lambda>a. Hostname a = ''etcd-bootstrap'') existingAddresses")
    case None
    then show ?thesis by (simp add: syncHostEndpoints_bootstrap_find n)
  next
    case (Some b)
    then have "Hostname b = ''etcd-bootstrap''" by (auto simp: find_Some_iff)
    with Some show ?thesis by (simp add: syncHostEndpoints_bootstrap_find find_append_None [OF n])
  qed
qed

lemma SetStringIfSet_again:
  "fst (SetStringIfSet False (snd (SetStringIfSet modified existing required)) required) = False"
  by (simp add: SetStringIfSet_def)

lemma SetStringIfSet_again_snd:
  "snd (SetStringIfSet False (snd (SetStringIfSet modified existing required)) required) =
     snd (SetStringIfSet modified existing required)"
  by (simp add: SetStringIfSet_def)

lemma MergeMap_single_map_of:
  "map_of (snd (MergeMap modified existing [(k, v)])) k = Some v"
  by (simp add: update_conv')

lemma MergeMap_single_unchanged:
  "map_of existing k = Some v \<Longrightarrow> MergeMap False existing [(k, v)] = (False, existing)"
  by simp

lemma EnsureObjectMeta_again:
  assumes "required = \<lparr>ObjectMeta.Name = name, Namespace = namespace, Labels = [],
                        Annotations = [(k, v)]\<rparr>"
  shows "fst (EnsureObjectMeta False (snd (EnsureObjectMeta False existing required)) required)
           = False"
proof -
  obtain m1 ns where 1: "SetStringIfSet False (Namespace existing) namespace = (m1, ns)"
    by (cases "SetStringIfSet False (Namespace existing) namespace")
  obtain m2 nm where 2: "SetStringIfSet m1 (ObjectMeta.Name existing) name = (m2, nm)"
    by (cases "SetStringIfSet m1 (ObjectMeta.Name existing) name")
  obtain m4 ann where 4: "MergeMap m2 (Annotations existing) [(k, v)] = (m4, ann)"
    by (cases "MergeMap m2 (Annotations existing) [(k, v)]")
  have first: "snd (EnsureObjectMeta False existing required) =
      \<lparr>ObjectMeta.Name = nm, Namespace = ns, Labels = Labels existing, Annotations = ann\<rparr>"
    using 1 2 4 by (simp add: assms EnsureObjectMeta_def del: MergeMap.simps(2))
  have a: "SetStringIfSet False ns namespace = (False, ns)"
    using SetStringIfSet_again [of False "Namespace existing" namespace]
      SetStringIfSet_again_snd [of False "Namespace existing" namespace] 1
    by (simp add: prod_eq_iff)
  have b: "SetStringIfSet False nm name = (False, nm)"
    using SetStringIfSet_again [of m1 "ObjectMeta.Name existing" name]
      SetStringIfSet_again_snd [of m1 "ObjectMeta.Name existing" name] 2
    by (simp add: prod_eq_iff)
  have "map_of ann k = Some v"
    using MergeMap_single_map_of [of m2 "Annotations existing" k v] 4 by simp
  then have c: "MergeMap False ann [(k, v)] = (False, ann)"
    by (rule MergeMap_single_unchanged)
  show ?thesis
    unfolding first using a b c
    by (simp add: assms EnsureObjectMeta_def split: prod.splits del: MergeMap.simps(2))
qed

lemma endpointsSubsetsEqual_self:
  assumes "tieFree (Addresses s)"
  shows "endpointsSubsetsEqual [s] [s] = Inr True"
  using endpointSubsetEqual_tieFree [OF assms assms]
  by (simp add: endpointsSubsetsEqual_def)


lemma after_reconcile_nothing_written:
  "snd (syncHostEndpoints c) = [] \<Longrightarrow> after_reconcile c = c"
  by (simp add: after_reconcile_def)

lemma reconcile_again:
  assumes existing: "endpointsLister_Get c = Inr existing"
    and existing_apply: "endpointsLister_Get_apply c = Inr existing"
    and domain: "getEtcdDiscoveryDomain c = Inr discoveryDomain"
    and network: "networkLister_Get c = Inr network"
    and nodes: "nodeLister_List c = Inr nodes"
    and members: "syncHostEndpoints_nodes c discoveryDomain network nodes [] = Inr memberAddresses"
    and names: "\<forall>a\<in>set memberAddresses. Hostname a \<noteq> ''etcd-bootstrap''"
    and succeeds: "fst (syncHostEndpoints c) = Inr ()"
  shows "syncHostEndpoints (after_reconcile c) = (Inr (), [])"
proof -
  from succeeds existing domain network nodes members
  obtain firstSubset rest where subsets: "Subsets existing = firstSubset # rest"
    by (cases "Subsets existing")
       (auto simp: syncHostEndpoints_def syncHostEndpoints_required_def)
  define addresses where
    "addresses = syncHostEndpoints_bootstrap (Addresses firstSubset) memberAddresses"
  define required where
    "required = \<lparr>ObjectMeta =
        \<lparr>ObjectMeta.Name = ''host-etcd'', Namespace = TargetNamespace c,
         Labels = [],
         Annotations = [(''alpha.installer.openshift.io/dns-suffix'', discoveryDomain)]\<rparr>,
      Subsets =
        [\<lparr>Addresses = addresses,
          NotReadyAddresses = [],
          Ports = [\<lparr>EndpointPort.Name = ''etcd'', Port = 2379, Protocol = ''TCP''\<rparr>]\<rparr>]\<rparr>"
  note builder = syncHostEndpoints_required_Inr
    [OF existing domain network nodes members subsets, folded addresses_def, folded required_def]
  from succeeds builder have nonempty: "addresses \<noteq> []"
    by (auto simp: syncHostEndpoints_def split: if_splits)
  with builder have required: "syncHostEndpoints_required c = Inr required" by simp
  with succeeds have apply_succeeds: "fst (applyEndpoints c required) = Inr ()"
    by (simp add: syncHostEndpoints_def)
  obtain modified meta where
    merge: "EnsureObjectMeta False (ObjectMeta existing) (ObjectMeta required) = (modified, meta)"
    by (cases "EnsureObjectMeta False (ObjectMeta existing) (ObjectMeta required)")
  from apply_succeeds existing_apply merge obtain equal where
    equal: "endpointsSubsetsEqual (Subsets existing) (Subsets required) = Inr equal"
    by (cases "endpointsSubsetsEqual (Subsets existing) (Subsets required)")
       (auto simp: applyEndpoints_def)
  show ?thesis
  proof (cases "modified \<or> \<not> equal")
    case False
    with existing_apply merge equal have "applyEndpoints c required = (Inr (), [])"
      by (simp add: applyEndpoints_def)
    with required have first: "syncHostEndpoints c = (Inr (), [])"
      by (simp add: syncHostEndpoints_def)
    then show ?thesis by (simp add: after_reconcile_nothing_written)
  next
    case True
    define toWrite where
      "toWrite = (if equal then existing\<lparr>ObjectMeta := meta\<rparr>
                  else existing\<lparr>ObjectMeta := meta, Subsets := Subsets required\<rparr>)"
    have "\<exists>reason message.
        applyEndpoints c required = (Inr (), [Update toWrite, Warning reason message])"
    proof (cases "endpointsClient_Update c toWrite")
      case (Inl err)
      with existing_apply merge equal True
      have "fst (applyEndpoints c required) = Inl (Returned err)"
        by (cases equal) (simp_all add: applyEndpoints_def toWrite_def)
      with apply_succeeds show ?thesis by simp
    next
      case (Inr updated)
      with existing_apply merge equal True show ?thesis
        by (cases equal) (simp_all add: applyEndpoints_def toWrite_def Let_def)
    qed
    with required have "written (snd (syncHostEndpoints c)) = Some toWrite"
      by (auto simp: syncHostEndpoints_def)
    then have after: "after_reconcile c =
        c\<lparr>endpointsLister_Get := Inr toWrite, endpointsLister_Get_apply := Inr toWrite\<rparr>"
      by (simp add: after_reconcile_def)
    let ?c = "c\<lparr>endpointsLister_Get := Inr toWrite, endpointsLister_Get_apply := Inr toWrite\<rparr>"
    have member_names: "\<forall>a\<in>set memberAddresses.
        NodeName a \<noteq> None \<and> Hostname a \<noteq> ''etcd-bootstrap''"
      using syncHostEndpoints_nodes_NodeName [OF members] names by simp
    obtain firstWritten restWritten where
      written_subsets: "Subsets toWrite = firstWritten # restWritten"
      and written_addresses:
        "syncHostEndpoints_bootstrap (Addresses firstWritten) memberAddresses = addresses"
    proof (cases equal)
      case True
      then have "Subsets toWrite = firstSubset # rest" by (simp add: toWrite_def subsets)
      then show ?thesis using that by (simp add: addresses_def)
    next
      case False
      then have "Subsets toWrite =
          \<lparr>Addresses = addresses, NotReadyAddresses = [],
           Ports = [\<lparr>EndpointPort.Name = ''etcd'', Port = 2379, Protocol = ''TCP''\<rparr>]\<rparr> # []"
        by (simp add: toWrite_def required_def)
      moreover have "syncHostEndpoints_bootstrap addresses memberAddresses = addresses"
        unfolding addresses_def using names by (rule syncHostEndpoints_bootstrap_again)
      ultimately show ?thesis using that by simp
    qed
    have 1: "endpointsLister_Get ?c = Inr toWrite"
      and 2: "getEtcdDiscoveryDomain ?c = Inr discoveryDomain"
      and 3: "networkLister_Get ?c = Inr network"
      and 4: "nodeLister_List ?c = Inr nodes"
      and 5: "syncHostEndpoints_nodes ?c discoveryDomain network nodes [] = Inr memberAddresses"
      and 6: "endpointsLister_Get_apply ?c = Inr toWrite"
      using domain network nodes members
      by (simp_all add: getEtcdDiscoveryDomain_listers syncHostEndpoints_nodes_listers)
    from syncHostEndpoints_required_Inr [OF 1 2 3 4 5 written_subsets] nonempty
    have again: "syncHostEndpoints_required ?c = Inr required"
      by (simp add: written_addresses required_def)
    have meta: "ObjectMeta toWrite =
        snd (EnsureObjectMeta False (ObjectMeta existing) (ObjectMeta required))"
      by (simp add: toWrite_def merge)
    have unchanged:
      "fst (EnsureObjectMeta False (ObjectMeta toWrite) (ObjectMeta required)) = False"
      unfolding meta by (rule EnsureObjectMeta_again) (simp add: required_def)
    have same: "endpointsSubsetsEqual (Subsets toWrite) (Subsets required) = Inr True"
    proof (cases equal)
      case True
      with equal show ?thesis by (simp add: toWrite_def)
    next
      case False
      have "tieFree addresses"
        unfolding addresses_def using member_names by (rule tieFree_bootstrap)
      then have "endpointsSubsetsEqual (Subsets required) (Subsets required) = Inr True"
        by (simp add: required_def endpointsSubsetsEqual_self)
      with False show ?thesis by (simp add: toWrite_def)
    qed
    from applyEndpoints_unchanged [OF 6 unchanged same] again after
    show ?thesis by (simp add: syncHostEndpoints_def)
  qed
qed


lemma example_first_reconcile:
  "syncHostEndpoints example_controller =
     (Inr (),
      [Update example_required,
       Warning ''EndpointsUpdated''
         ''Updated endpoints/host-etcd -n openshift-etcd because it changed: patch''])"
proof -
  have "applyEndpoints example_controller example_required =
     (Inr (),
      [Update example_required,
       Warning ''EndpointsUpdated''
         ''Updated endpoints/host-etcd -n openshift-etcd because it changed: patch''])"
    by (simp add: applyEndpoints_def EnsureObjectMeta_def SetStringIfSet_def equal_defs
        example_defs)
  then show ?thesis by (simp add: syncHostEndpoints_def example_required)
qed

text \<open>
  C1, as the code has it. When both reads of the first reconcile return the same
  published object, no member address computed from topology has the hostname
  \<^verbatim>\<open>etcd-bootstrap\<close>, and the first reconcile returns nil, the second reconcile, which
  reads what the first one left published, returns nil and does nothing: no create, no
  update, no event. Concretely, when the metadata merge changes nothing and
  \<^verbatim>\<open>existing.Subsets\<close> is equal to \<^verbatim>\<open>required.Subsets\<close> under \<^verbatim>\<open>endpointsSubsetsEqual\<close>,
  \<^verbatim>\<open>applyEndpoints\<close> returns nil without any action.
\<close>

theorem second_reconcile_writes_nothing:
  "(endpointsLister_Get c = Inr existing \<and> endpointsLister_Get_apply c = Inr existing
    \<and> getEtcdDiscoveryDomain c = Inr discoveryDomain
    \<and> networkLister_Get c = Inr network
    \<and> nodeLister_List c = Inr nodes
    \<and> syncHostEndpoints_nodes c discoveryDomain network nodes [] = Inr memberAddresses
    \<and> (\<forall>a\<in>set memberAddresses. Hostname a \<noteq> ''etcd-bootstrap'')
    \<and> fst (syncHostEndpoints c) = Inr ()
    \<longrightarrow> syncHostEndpoints (after_reconcile c) = (Inr (), []))
   \<and> (endpointsLister_Get_apply c = Inr published
      \<and> fst (EnsureObjectMeta False (ObjectMeta published) (ObjectMeta required)) = False
      \<and> endpointsSubsetsEqual (Subsets published) (Subsets required) = Inr True
      \<longrightarrow> applyEndpoints c required = (Inr (), []))"
  using reconcile_again [of c existing discoveryDomain network nodes memberAddresses]
    applyEndpoints_unchanged [of c published required]
  by blast

text \<open>
  The witness: the first reconcile of the example cluster updates the published object,
  the second does nothing; and \<^verbatim>\<open>applyEndpoints\<close> on the synced cluster does nothing.
\<close>

theorem second_reconcile_writes_nothing_witness:
  "fst (syncHostEndpoints example_controller) = Inr ()
   \<and> snd (syncHostEndpoints example_controller) \<noteq> []
   \<and> syncHostEndpoints (after_reconcile example_controller) = (Inr (), [])
   \<and> applyEndpoints example_synced_controller example_required = (Inr (), [])"
proof -
  have 1: "endpointsLister_Get example_controller = Inr example_existing"
    and 2: "endpointsLister_Get_apply example_controller = Inr example_existing"
    and 3: "networkLister_Get example_controller = Inr ()"
    and 4: "nodeLister_List example_controller = Inr example_nodes"
    by (simp_all add: example_controller_def)
  have 5: "\<forall>a\<in>set [\<lparr>IP = ''10.0.0.1'', Hostname = ''a'', NodeName = Some ''master-0''\<rparr>,
          \<lparr>IP = ''10.0.0.2'', Hostname = ''b'', NodeName = Some ''master-1''\<rparr>].
          Hostname a \<noteq> ''etcd-bootstrap''"
    by simp
  have 6: "fst (syncHostEndpoints example_controller) = Inr ()"
    and 7: "snd (syncHostEndpoints example_controller) \<noteq> []"
    by (simp_all add: example_first_reconcile)
  have 8: "endpointsLister_Get_apply example_synced_controller = Inr example_published"
    by (simp add: example_synced_controller_def example_controller_def)
  from second_reconcile_writes_nothing [of example_controller example_existing "''example.com''" "()" example_nodes
        "[\<lparr>IP = ''10.0.0.1'', Hostname = ''a'', NodeName = Some ''master-0''\<rparr>,
          \<lparr>IP = ''10.0.0.2'', Hostname = ''b'', NodeName = Some ''master-1''\<rparr>]"]
    1 2 3 4 5 6 example_discoveryDomain example_member_addresses
  have a: "syncHostEndpoints (after_reconcile example_controller) = (Inr (), [])"
    by blast
  from second_reconcile_writes_nothing [of example_synced_controller _ _ _ _ _ example_published example_required]
    8 example_meta_unchanged example_subsets_equal
  have b: "applyEndpoints example_synced_controller example_required = (Inr (), [])"
    by blast
  from 6 7 a b show ?thesis by simp
qed

text \<open>
  C1 as stated fails on the cluster whose member node has the hostname
  \<^verbatim>\<open>etcd-bootstrap\<close>: the first reconcile succeeds and publishes the member and the
  bootstrap entry; the second takes the member for the bootstrap entry, asks for the
  member twice, and updates the published object again.
\<close>

theorem second_reconcile_writes_again:
  "endpointsLister_Get_apply example_named_bootstrap_controller =
     endpointsLister_Get example_named_bootstrap_controller
   \<and> syncHostEndpoints example_named_bootstrap_controller =
       (Inr (),
        [Update example_named_first,
         Warning ''EndpointsUpdated''
           ''Updated endpoints/host-etcd -n openshift-etcd because it changed: patch''])
   \<and> syncHostEndpoints (after_reconcile example_named_bootstrap_controller) =
       (Inr (),
        [Update example_named_second,
         Warning ''EndpointsUpdated''
           ''Updated endpoints/host-etcd -n openshift-etcd because it changed: patch''])"
proof -
  have first: "syncHostEndpoints example_named_bootstrap_controller =
       (Inr (),
        [Update example_named_first,
         Warning ''EndpointsUpdated''
           ''Updated endpoints/host-etcd -n openshift-etcd because it changed: patch''])"
    by (simp add: syncHostEndpoints_def syncHostEndpoints_required_def hostEndpointsAsset_def
        applyEndpoints_def EnsureObjectMeta_def SetStringIfSet_def
        example_defs resolver_defs equal_defs example_named_bootstrap_controller_def example_named_member_def
        example_named_first_def example_named_second_def example_bootstrap_only_def)
  then have after: "after_reconcile example_named_bootstrap_controller =
      example_named_bootstrap_controller
        \<lparr>endpointsLister_Get := Inr example_named_first,
         endpointsLister_Get_apply := Inr example_named_first\<rparr>"
    by (simp add: after_reconcile_def)
  have second: "syncHostEndpoints
      (example_named_bootstrap_controller
        \<lparr>endpointsLister_Get := Inr example_named_first,
         endpointsLister_Get_apply := Inr example_named_first\<rparr>) =
       (Inr (),
        [Update example_named_second,
         Warning ''EndpointsUpdated''
           ''Updated endpoints/host-etcd -n openshift-etcd because it changed: patch''])"
    by (simp add: syncHostEndpoints_def syncHostEndpoints_required_def hostEndpointsAsset_def
        applyEndpoints_def EnsureObjectMeta_def SetStringIfSet_def
        example_defs resolver_defs equal_defs example_named_bootstrap_controller_def example_named_member_def
        example_named_first_def example_named_second_def example_bootstrap_only_def)
  have "endpointsLister_Get_apply example_named_bootstrap_controller =
     endpointsLister_Get example_named_bootstrap_controller"
    by (simp add: example_named_bootstrap_controller_def example_controller_def)
  with first second after show ?thesis by simp
qed

end
